theory Spec2Isabelle
  imports Complex_Main "HOL-Library.Multiset"
begin

section \<open>Python values shared by the modules\<close>

text \<open>
  The repository is Python. Its strings are modelled as \<open>string\<close> (lists of characters)
  restricted to ASCII text: case mapping and the whitespace class are the ASCII parts of
  Python's \<open>str.lower\<close>, \<open>str.upper\<close>, \<open>str.isupper\<close> and \<open>str.isspace\<close>. Python's
  unbounded \<open>int\<close> is \<open>int\<close>. Python's \<open>float\<close> is idealised as \<open>real\<close>: rounding is
  not modelled. Every exception a function can raise is a value \<open>Inl e\<close> of a sum type.
  A method keeps its name, without the leading underscore of a private one; \<open>self\<close>
  and the state of the external stores are explicit arguments.
\<close>

datatype py_error =
    KeyError string
  | ValueError string
  | AttributeError string
  | HTTPError nat
  | RequestException
  | JSONDecodeError
  | ServiceUnavailable

definition ascii_uppercase :: string where
  "ascii_uppercase = ''ABCDEFGHIJKLMNOPQRSTUVWXYZ''"

definition ascii_lowercase :: string where
  "ascii_lowercase = ''abcdefghijklmnopqrstuvwxyz''"

definition whitespace :: string where
  "whitespace = [CHR 0x09, CHR 0x0A, CHR 0x0B, CHR 0x0C, CHR 0x0D,
                 CHR 0x1C, CHR 0x1D, CHR 0x1E, CHR 0x1F, CHR 0x20]"

definition isupper :: "char \<Rightarrow> bool" where
  "isupper c = (c \<in> set ascii_uppercase)"

definition isspace :: "char \<Rightarrow> bool" where
  "isspace c = (c \<in> set whitespace)"

definition lower_char :: "char \<Rightarrow> char" where
  "lower_char c = (case map_of (zip ascii_uppercase ascii_lowercase) c of
                     Some d \<Rightarrow> d | None \<Rightarrow> c)"

definition upper_char :: "char \<Rightarrow> char" where
  "upper_char c = (case map_of (zip ascii_lowercase ascii_uppercase) c of
                     Some d \<Rightarrow> d | None \<Rightarrow> c)"

definition lower :: "string \<Rightarrow> string" where
  "lower s = map lower_char s"

definition upper :: "string \<Rightarrow> string" where
  "upper s = map upper_char s"

text \<open>\<open>s.strip()\<close>: whitespace removed at both ends.\<close>

definition strip :: "string \<Rightarrow> string" where
  "strip s = rev (dropWhile isspace (rev (dropWhile isspace s)))"

text \<open>\<open>s.split()\<close>: the maximal runs of non-whitespace characters, in order.\<close>

fun split_acc :: "string \<Rightarrow> string \<Rightarrow> string list" where
  "split_acc w [] = (if w = [] then [] else [rev w])"
| "split_acc w (c # cs) =
     (if isspace c then (if w = [] then split_acc [] cs else rev w # split_acc [] cs)
      else split_acc (c # w) cs)"

definition split :: "string \<Rightarrow> string list" where
  "split s = split_acc [] s"

text \<open>\<open>s.replace(" ", "_")\<close>.\<close>

definition replace_space :: "string \<Rightarrow> string" where
  "replace_space s = map (\<lambda>c. if c = CHR '' '' then CHR ''_'' else c) s"

text \<open>
  \<open>xs[:k]\<close> for a Python \<open>int\<close> \<open>k\<close>: the first \<open>k\<close> elements, and for a negative
  \<open>k\<close> all but the last \<open>-k\<close>.
\<close>

definition slice_to :: "'a list \<Rightarrow> int \<Rightarrow> 'a list" where
  "slice_to xs k = (if 0 \<le> k then take (nat k) xs else take (nat (int (length xs) + k)) xs)"

text \<open>\<open>d.get(key, default)\<close> on a dictionary with string keys and string values.\<close>

type_synonym pydict = "string \<rightharpoonup> string"

definition get_str :: "pydict \<Rightarrow> string \<Rightarrow> string \<Rightarrow> string" where
  "get_str d key dflt = (case d key of None \<Rightarrow> dflt | Some v \<Rightarrow> v)"

section \<open>Embedding provider: \<open>handlers/pinecone_handler.py\<close>\<close>

text \<open>
  \<open>PineconeHandler.__init__\<close> stores the configured dimension (default 1024), refuses
  missing credentials, and then connects: the client construction and
  \<open>_get_or_create_index\<close> are the parameter \<open>connect\<close>, which may raise.
\<close>

record PineconeHandler =
  api_key :: string
  index_name :: string
  embedding_dimension :: int

definition PineconeHandler_init ::
  "(string \<Rightarrow> string option) \<Rightarrow> (string \<Rightarrow> string \<Rightarrow> int \<Rightarrow> py_error + unit)
     \<Rightarrow> string option \<Rightarrow> string option \<Rightarrow> int option \<Rightarrow> py_error + PineconeHandler" where
  "PineconeHandler_init getenv connect k n d =
     (let key = (case k of Some s \<Rightarrow> (if s = [] then getenv ''PINECONE_API_KEY'' else Some s)
                         | None \<Rightarrow> getenv ''PINECONE_API_KEY'');
          name = (case n of Some s \<Rightarrow> (if s = [] then getenv ''PINECONE_INDEX_NAME'' else Some s)
                          | None \<Rightarrow> getenv ''PINECONE_INDEX_NAME'');
          dim = (case d of Some i \<Rightarrow> i | None \<Rightarrow> 1024)
      in case (key, name) of
           (Some ks, Some ns) \<Rightarrow>
             (if ks = [] \<or> ns = [] then Inl (ValueError ''Pinecone credentials not provided'')
              else
                (case connect ks ns dim of
                   Inl e \<Rightarrow> Inl e
                 | Inr _ \<Rightarrow> Inr \<lparr>api_key = ks, index_name = ns, embedding_dimension = dim\<rparr>))
         | _ \<Rightarrow> Inl (ValueError ''Pinecone credentials not provided''))"

text \<open>
  \<open>LlamaEmbedding\<close> holds a key, a model name and a URL; it has no dimension field.
  The HTTP call is a parameter \<open>post\<close>. A response carries its status and, when its body
  is JSON, the value under \<open>"data"\<close> (absent: \<open>None\<close>), a list of items each with an
  optional \<open>"values"\<close> entry.
\<close>

record LlamaEmbedding =
  llama_api_key :: string
  llama_model :: string
  api_url :: string

record embed_item =
  item_values :: "real list option"

record embed_body =
  body_data :: "embed_item list option"

record http_response =
  status_code :: nat
  json_body :: "embed_body option"

record embed_payload =
  payload_model :: string
  payload_inputs :: "string list"

type_synonym http_post = "string \<Rightarrow> embed_payload \<Rightarrow> (string \<times> string) list \<Rightarrow> py_error + http_response"

definition raise_for_status :: "http_response \<Rightarrow> py_error + unit" where
  "raise_for_status r =
     (if 400 \<le> status_code r \<and> status_code r < 600 then Inl (HTTPError (status_code r))
      else Inr ())"

definition response_json :: "http_response \<Rightarrow> py_error + embed_body" where
  "response_json r = (case json_body r of None \<Rightarrow> Inl JSONDecodeError | Some b \<Rightarrow> Inr b)"

fun collect_values :: "embed_item list \<Rightarrow> py_error + real list list" where
  "collect_values [] = Inr []"
| "collect_values (i # is) =
     (case item_values i of
        None \<Rightarrow> Inl (KeyError ''values'')
      | Some v \<Rightarrow> (case collect_values is of Inl e \<Rightarrow> Inl e | Inr vs \<Rightarrow> Inr (v # vs)))"

text \<open>The body of the \<open>try\<close> block of \<open>embed_texts\<close>.\<close>

definition request_embeddings ::
  "http_post \<Rightarrow> LlamaEmbedding \<Rightarrow> string list \<Rightarrow> py_error + real list list" where
  "request_embeddings post self texts =
     (let headers = [(''Api-Key'', llama_api_key self), (''Content-Type'', ''application/json'')];
          payload = \<lparr>payload_model = llama_model self, payload_inputs = texts\<rparr>
      in case post (api_url self) payload headers of
           Inl e \<Rightarrow> Inl e
         | Inr response \<Rightarrow>
             (case raise_for_status response of
                Inl e \<Rightarrow> Inl e
              | Inr _ \<Rightarrow>
                  (case response_json response of
                     Inl e \<Rightarrow> Inl e
                   | Inr d \<Rightarrow>
                       (case body_data d of
                          None \<Rightarrow> Inl (KeyError ''data'')
                        | Some items \<Rightarrow> collect_values items))))"

definition embed_texts :: "http_post \<Rightarrow> LlamaEmbedding \<Rightarrow> string list \<Rightarrow> real list list" where
  "embed_texts post self texts =
     (case request_embeddings post self texts of
        Inr embeddings \<Rightarrow> embeddings
      | Inl e \<Rightarrow> map (\<lambda>_. replicate 1024 0) texts)"

section \<open>Document chunker: \<open>extractors/entity_extractor.py\<close>\<close>

text \<open>
  Python slice bounds: a negative bound counts from the end, and every bound is clamped
  to the range of the sequence.
\<close>

definition clamp_index :: "nat \<Rightarrow> int \<Rightarrow> nat" where
  "clamp_index n i = (if i < 0 then nat (max 0 (i + int n)) else min (nat i) n)"

definition slice :: "'a list \<Rightarrow> int \<Rightarrow> int \<Rightarrow> 'a list" where
  "slice xs i j =
     (let lo = clamp_index (length xs) i; hi = clamp_index (length xs) j
      in take (hi - lo) (drop lo xs))"

text \<open>
  \<open>s.rfind(c, i, j)\<close> for a single character \<open>c\<close>: the highest index in the clamped
  range \<open>[i, j)\<close> that holds \<open>c\<close>, or \<open>-1\<close>. The scan runs downwards over \<open>k\<close> positions
  from \<open>lo + k - 1\<close>.
\<close>

fun rfind_down :: "string \<Rightarrow> char \<Rightarrow> nat \<Rightarrow> nat \<Rightarrow> int" where
  "rfind_down s c lo 0 = -1"
| "rfind_down s c lo (Suc k) = (if s ! (lo + k) = c then int (lo + k) else rfind_down s c lo k)"

definition rfind :: "string \<Rightarrow> char \<Rightarrow> int \<Rightarrow> int \<Rightarrow> int" where
  "rfind s c i j =
     (let lo = clamp_index (length s) i; hi = clamp_index (length s) j
      in rfind_down s c lo (hi - lo))"

text \<open>\<open>str(n)\<close> for a non-negative counter, as the f-strings of the chunk ids use it.\<close>

fun str_nat :: "nat \<Rightarrow> string" where
  "str_nat n =
     (if n < 10 then [''0123456789'' ! n]
      else str_nat (n div 10) @ [''0123456789'' ! (n mod 10)])"

record DocumentChunker =
  chunk_size :: int
  chunk_overlap :: int

definition DocumentChunker_init :: "int option \<Rightarrow> int option \<Rightarrow> DocumentChunker" where
  "DocumentChunker_init cs ov =
     \<lparr>chunk_size = (case cs of None \<Rightarrow> 1000 | Some n \<Rightarrow> n),
      chunk_overlap = (case ov of None \<Rightarrow> 200 | Some n \<Rightarrow> n)\<rparr>"

text \<open>A chunk dictionary: keys \<open>id\<close>, \<open>text\<close>, \<open>start_pos\<close>, \<open>end_pos\<close>, \<open>doc_id\<close>, \<open>chunk_num\<close>.\<close>

record chunk =
  c_id :: string
  c_text :: string
  start_pos :: int
  end_pos :: int
  c_doc_id :: "string option"
  chunk_num :: nat

text \<open>
  The window end of one iteration of \<open>chunk_text\<close>: \<open>min(start + chunk_size, len)\<close>,
  pulled back to just after the last period or newline of the window when that lies past
  \<open>start\<close>.
\<close>

definition window_end :: "DocumentChunker \<Rightarrow> string \<Rightarrow> int \<Rightarrow> int" where
  "window_end self text start =
     (let text_length = int (length text);
          end = min (start + chunk_size self) text_length
      in if end < text_length then
           (let last_period = rfind text CHR ''.'' start end;
                last_newline = rfind text CHR 0x0A start end;
                break_point = max last_period last_newline
            in if break_point > start then break_point + 1 else end)
         else end)"

definition make_chunk_id :: "string option \<Rightarrow> nat \<Rightarrow> string" where
  "make_chunk_id doc_id n =
     (case doc_id of
        None \<Rightarrow> ''chunk_'' @ str_nat n
      | Some d \<Rightarrow> (if d = [] then ''chunk_'' @ str_nat n else d @ ''_chunk_'' @ str_nat n))"

text \<open>One iteration of the \<open>while\<close> loop: the new \<open>start\<close>, \<open>chunk_num\<close> and \<open>chunks\<close>.\<close>

definition chunk_step ::
  "DocumentChunker \<Rightarrow> string \<Rightarrow> string option \<Rightarrow> int \<Rightarrow> nat \<Rightarrow> chunk list
     \<Rightarrow> int \<times> nat \<times> chunk list" where
  "chunk_step self text doc_id start num chunks =
     (let text_length = int (length text);
          end = window_end self text start;
          piece = strip (slice text start end);
          (num', chunks') =
             (if piece \<noteq> [] then
                (num + 1,
                 chunks @ [\<lparr>c_id = make_chunk_id doc_id num, c_text = piece,
                            start_pos = start, end_pos = end, c_doc_id = doc_id,
                            chunk_num = num\<rparr>])
              else (num, chunks));
          start' = (if end < text_length then end - chunk_overlap self else text_length)
      in (start', num', chunks'))"

text \<open>
  The loop \<open>while start < text_length\<close>. It may run forever, so it is a partial function:
  \<open>None\<close> is the run that never returns.
\<close>

partial_function (option) chunk_loop ::
  "DocumentChunker \<Rightarrow> string \<Rightarrow> string option \<Rightarrow> int \<Rightarrow> nat \<Rightarrow> chunk list
     \<Rightarrow> chunk list option" where
  "chunk_loop self text doc_id start num chunks =
     (if start < int (length text) then
        (case chunk_step self text doc_id start num chunks of
           (start', num', chunks') \<Rightarrow> chunk_loop self text doc_id start' num' chunks')
      else Some chunks)"

definition chunk_text :: "DocumentChunker \<Rightarrow> string \<Rightarrow> string option \<Rightarrow> chunk list option" where
  "chunk_text self text doc_id = chunk_loop self text doc_id 0 0 []"

text \<open>
  A text of 1052 characters whose only sentence boundary is a period at index 250:
  \<open>"x" * 250 + "." + "x" * 801\<close>.
\<close>

definition long_sentence_text :: string where
  "long_sentence_text = replicate 250 (CHR ''x'') @ CHR ''.'' # replicate 801 (CHR ''x'')"

section \<open>LLM handler: \<open>handlers/ollama_handler.py\<close>\<close>

text \<open>
  \<open>s.find(c)\<close> for a single character: the lowest index that holds \<open>c\<close>, or \<open>-1\<close>.
  \<open>s.rfind(c)\<close> is \<open>rfind s c 0 (len s)\<close>.
\<close>

fun find_from :: "string \<Rightarrow> char \<Rightarrow> nat \<Rightarrow> int" where
  "find_from [] c i = -1"
| "find_from (x # xs) c i = (if x = c then int i else find_from xs c (Suc i))"

definition str_find :: "string \<Rightarrow> char \<Rightarrow> int" where
  "str_find s c = find_from s c 0"

datatype json =
    JNull
  | JBool bool
  | JNumber real
  | JString string
  | JArray "json list"
  | JObject "(string \<times> json) list"

text \<open>The dictionary \<open>{"entities": [], "relationships": []}\<close>.\<close>

definition empty_extraction :: json where
  "empty_extraction = JObject [(''entities'', JArray []), (''relationships'', JArray [])]"

record OllamaHandler =
  model :: string
  host :: string

record message =
  role :: string
  content :: string

record chat_options =
  temperature :: real
  num_predict :: "int option"

text \<open>
  The client call \<open>self.client.chat(model, messages, options)\<close> together with the read
  \<open>response['message']['content']\<close> is a parameter: it gives the content or raises.
  \<open>json.loads\<close> is a parameter too: \<open>None\<close> when it raises.
\<close>

type_synonym client_chat = "string \<Rightarrow> message list \<Rightarrow> chat_options \<Rightarrow> py_error + string"

type_synonym json_loads = "string \<Rightarrow> json option"

definition generate ::
  "client_chat \<Rightarrow> OllamaHandler \<Rightarrow> string \<Rightarrow> string option \<Rightarrow> real \<Rightarrow> int option \<Rightarrow> string" where
  "generate chat self prompt system_prompt temp max_tokens =
     (let messages =
            (case system_prompt of
               None \<Rightarrow> []
             | Some sp \<Rightarrow> (if sp = [] then [] else [\<lparr>role = ''system'', content = sp\<rparr>]))
            @ [\<lparr>role = ''user'', content = prompt\<rparr>];
          options =
            \<lparr>temperature = temp,
             num_predict = (case max_tokens of
                              None \<Rightarrow> None
                            | Some n \<Rightarrow> (if n = 0 then None else Some n))\<rparr>
      in case chat (model self) messages options of
           Inl e \<Rightarrow> []
         | Inr text \<Rightarrow> text)"

definition extraction_system_prompt :: string where
  \<open>extraction_system_prompt =
     ''You are an expert agricultural knowledge extractor.\<newline>'' @
     ''Extract entities and relationships from the given text.\<newline>'' @
     ''\<newline>'' @
     ''Entities can be: Crops, Diseases, Pests, Techniques, Chemicals, Locations, etc.\<newline>'' @
     ''Relationships can be: TREATS, AFFECTS, PREVENTS, PART_OF, LOCATED_IN, etc.\<newline>'' @
     ''\<newline>'' @
     ''Return a JSON object with this structure:\<newline>'' @
     ''{\<newline>'' @
     ''  "entities": [\<newline>'' @
     ''    {"name": "entity_name", "type": "entity_type", "description": "brief description"}\<newline>'' @
     ''  ],\<newline>'' @
     ''  "relationships": [\<newline>'' @
     ''    {"from": "entity1", "to": "entity2", "type": "relationship_type"}\<newline>'' @
     ''  ]\<newline>'' @
     ''}\<newline>'' @
     ''\<newline>'' @
     ''Only return valid JSON, nothing else.''\<close>

definition extraction_prompt :: "string \<Rightarrow> string" where
  "extraction_prompt text =
     ''Extract entities and relationships from this agricultural text:\<newline>\<newline>'' @ text"

text \<open>
  \<open>extract_entities\<close>: every exception of the \<open>try\<close> block is caught and answered by the
  empty structure, so the result type has no error.
\<close>

definition extract_entities ::
  "client_chat \<Rightarrow> json_loads \<Rightarrow> OllamaHandler \<Rightarrow> string \<Rightarrow> json" where
  "extract_entities chat loads self text =
     (let response = generate chat self (extraction_prompt text)
                       (Some extraction_system_prompt) 0.3 None;
          start = str_find response CHR ''{'';
          end = rfind response CHR ''}'' 0 (int (length response)) + 1
      in if start \<ge> 0 \<and> end > start then
           (case loads (slice response start end) of
              Some v \<Rightarrow> v
            | None \<Rightarrow> empty_extraction)
         else empty_extraction)"

text \<open>
  The specification's reading of the same step: the substring from the first \<open>{\<close> to the
  last \<open>}\<close> of the response, when both exist and the first \<open>{\<close> does not come after the last \<open>}\<close>.
\<close>

definition first_index :: "char \<Rightarrow> string \<Rightarrow> nat" where
  "first_index c s = length (takeWhile (\<lambda>x. x \<noteq> c) s)"

definition last_index :: "char \<Rightarrow> string \<Rightarrow> nat" where
  "last_index c s = length s - 1 - length (takeWhile (\<lambda>x. x \<noteq> c) (rev s))"

definition brace_substring :: "string \<Rightarrow> string option" where
  "brace_substring s =
     (if CHR ''{'' \<in> set s \<and> CHR ''}'' \<in> set s
         \<and> first_index CHR ''{'' s \<le> last_index CHR ''}'' s
      then Some (take (last_index CHR ''}'' s + 1 - first_index CHR ''{'' s)
                  (drop (first_index CHR ''{'' s) s))
      else None)"

definition spec_extract :: "json_loads \<Rightarrow> string \<Rightarrow> json" where
  "spec_extract loads response =
     (case brace_substring response of
        None \<Rightarrow> empty_extraction
      | Some sub \<Rightarrow> (case loads sub of None \<Rightarrow> empty_extraction | Some v \<Rightarrow> v))"

text \<open>The response of the specification's scenario, and a parser that knows its JSON text.\<close>

definition scenario_response :: string where
  \<open>scenario_response = ''blah {"entities":[],"relationships":[]} blah''\<close>

definition scenario_loads :: json_loads where
  \<open>scenario_loads s =
     (if s = ''{"entities":[],"relationships":[]}'' then Some empty_extraction else None)\<close>

section \<open>Entity store: \<open>handlers/neo4j_handler.py\<close>\<close>

text \<open>
  A retrieval result is a dictionary. Its keys are optional fields here: a vector hit
  has \<open>id\<close>, \<open>score\<close> and \<open>metadata\<close>; a graph hit has \<open>id\<close>, \<open>labels\<close>, \<open>properties\<close> and
  \<open>relationship_path\<close>; reranking adds \<open>normalized_score\<close>, \<open>source\<close> and \<open>final_score\<close>.
\<close>

record result =
  r_id :: string
  score :: "real option"
  metadata :: "pydict option"
  labels :: "string list option"
  properties :: "pydict option"
  relationship_path :: "string list option"
  normalized_score :: "real option"
  source :: "string option"
  final_score :: "real option"

text \<open>
  A dictionary whose values are whatever \<open>json.loads\<close> produced: strings, numbers,
  \<open>None\<close>, lists or dictionaries.
\<close>

type_synonym jdict = "string \<rightharpoonup> json"

text \<open>The dictionary \<open>{"id": ..., **props}\<close> that \<open>find_entity_by_name\<close> returns.\<close>

record entity_node =
  node_id :: string
  node_props :: pydict

text \<open>
  The methods of \<open>Neo4jHandler\<close> that run a Cypher query are the boundary of the program.
  Each is a parameter: from the state \<open>'s\<close> of the database and the connection it gives a
  value or raises, and a new state. Nothing is assumed of them, so one call may answer
  differently from the next.
\<close>

record 's Neo4jHandler =
  create_entity_node :: "'s \<Rightarrow> string \<Rightarrow> pydict \<Rightarrow> (py_error + string option) \<times> 's"
  create_relationship ::
    "'s \<Rightarrow> string \<Rightarrow> string \<Rightarrow> string \<Rightarrow> jdict \<Rightarrow> (py_error + bool) \<times> 's"
  find_entity_by_name :: "'s \<Rightarrow> string \<Rightarrow> string \<Rightarrow> (py_error + entity_node option) \<times> 's"
  get_related_entities :: "'s \<Rightarrow> string \<Rightarrow> string \<Rightarrow> int \<Rightarrow> (py_error + result list) \<times> 's"
  search_entities :: "'s \<Rightarrow> string \<Rightarrow> int \<Rightarrow> (py_error + result list) \<times> 's"

definition get_or_create_entity ::
  "'s Neo4jHandler \<Rightarrow> 's \<Rightarrow> string \<Rightarrow> pydict \<Rightarrow> (py_error + string option) \<times> 's" where
  "get_or_create_entity neo4j s entity_type props =
     (case props ''name'' of
        None \<Rightarrow> (Inl (ValueError ''Entity properties must include 'name' ''), s)
      | Some name \<Rightarrow>
          (if name = [] then (Inl (ValueError ''Entity properties must include 'name' ''), s)
           else
             (case find_entity_by_name neo4j s entity_type name of
                (Inl e, s') \<Rightarrow> (Inl e, s')
              | (Inr (Some existing), s') \<Rightarrow> (Inr (Some (node_id existing)), s')
              | (Inr None, s') \<Rightarrow> create_entity_node neo4j s' entity_type props)))"

section \<open>Graph builder: \<open>graph_builder.py\<close>\<close>

text \<open>
  An extraction holds the lists under \<open>"entities"\<close> and \<open>"relationships"\<close> (absent: empty).
  Entities are dictionaries with string values. A relationship is a dictionary as the
  parsed response of the model gives it: the value under \<open>from\<close>, \<open>to\<close> or \<open>type\<close> may
  be any JSON value. The entity cache maps a lower-cased name to the id the store
  returned, which may be \<open>None\<close>.
\<close>

record extraction =
  entities :: "pydict list"
  relationships :: "jdict list"

record stats =
  entities_created :: nat
  entities_found :: nat
  relationships_created :: nat
  errors :: nat

type_synonym entity_cache = "string \<rightharpoonup> string option"

text \<open>Python's truth value of an id: \<open>None\<close> and the empty string are false.\<close>

definition truthy_id :: "string option \<Rightarrow> bool" where
  "truthy_id i = (case i of None \<Rightarrow> False | Some v \<Rightarrow> v \<noteq> [])"

text \<open>
  \<open>_create_or_get_entity\<close> (names are written without the leading underscore): the id
  or the exception, and the cache and the state of the store afterwards.
\<close>

definition entity_properties :: "pydict \<Rightarrow> string \<Rightarrow> string \<Rightarrow> pydict" where
  "entity_properties entity name description =
     (\<lambda>key. if key = ''name'' then Some name
            else if key = ''description'' then Some description
            else if key \<in> {''type'', ''source_chunk''} then None
            else entity key)"

definition create_or_get_entity ::
  "'s Neo4jHandler \<Rightarrow> entity_cache \<Rightarrow> 's \<Rightarrow> pydict
     \<Rightarrow> (py_error + string option) \<times> entity_cache \<times> 's" where
  "create_or_get_entity neo4j cache s entity =
     (let name = strip (get_str entity ''name'' []);
          entity_type = strip (get_str entity ''type'' ''Entity'');
          description = get_str entity ''description'' []
      in if name = [] then (Inr None, cache, s)
         else
           (let cache_key = lower name
            in case cache cache_key of
                 Some cached \<Rightarrow> (Inr cached, cache, s)
               | None \<Rightarrow>
                   (case get_or_create_entity neo4j s entity_type
                           (entity_properties entity name description) of
                      (Inl e, s') \<Rightarrow> (Inl e, cache, s')
                    | (Inr entity_id, s') \<Rightarrow>
                        (Inr entity_id, cache(cache_key \<mapsto> entity_id), s'))))"

text \<open>
  The body of the inner loop of the first pass. The test
  \<open>entity.get("name", "").lower() in self.entity_cache\<close> reads the cache as
  \<open>_create_or_get_entity\<close> has left it.
\<close>

definition entity_step ::
  "'s Neo4jHandler \<Rightarrow> pydict \<Rightarrow> stats \<times> entity_cache \<times> 's \<Rightarrow> stats \<times> entity_cache \<times> 's" where
  "entity_step neo4j entity = (\<lambda>(st, cache, s).
     (case create_or_get_entity neo4j cache s entity of
        (Inl e, cache', s') \<Rightarrow> (st\<lparr>errors := errors st + 1\<rparr>, cache', s')
      | (Inr entity_id, cache', s') \<Rightarrow>
          (if truthy_id entity_id then
             (if lower (get_str entity ''name'' []) \<in> dom cache'
              then st\<lparr>entities_found := entities_found st + 1\<rparr>
              else st\<lparr>entities_created := entities_created st + 1\<rparr>)
           else st,
           cache', s')))"

text \<open>
  \<open>relationship.get(key, default).strip()\<close>: the value is a string, or the key is absent
  and the default is taken; on any other value \<open>.strip()\<close> raises \<open>AttributeError\<close>.
\<close>

fun is_text :: "json option \<Rightarrow> bool" where
  "is_text None = True"
| "is_text (Some (JString v)) = True"
| "is_text (Some _) = False"

fun text_of :: "json option \<Rightarrow> string \<Rightarrow> string" where
  "text_of (Some (JString v)) dflt = v"
| "text_of _ dflt = dflt"

definition get_text :: "jdict \<Rightarrow> string \<Rightarrow> string \<Rightarrow> py_error + string" where
  "get_text d key dflt =
     (if is_text (d key) then Inr (text_of (d key) dflt)
      else Inl (AttributeError ''strip''))"

text \<open>
  A relationship is text valued when none of the three reads raises. Its names and its
  type are then the strings that \<open>_create_relationship\<close> computes.
\<close>

definition text_valued :: "jdict \<Rightarrow> bool" where
  "text_valued relationship =
     (is_text (relationship ''from'') \<and> is_text (relationship ''to'')
      \<and> is_text (relationship ''type''))"

definition from_name :: "jdict \<Rightarrow> string" where
  "from_name relationship = lower (strip (text_of (relationship ''from'') []))"

definition to_name :: "jdict \<Rightarrow> string" where
  "to_name relationship = lower (strip (text_of (relationship ''to'') []))"

definition relationship_type :: "jdict \<Rightarrow> string" where
  "relationship_type relationship =
     replace_space (upper (strip (text_of (relationship ''type'') ''RELATED_TO'')))"

definition cache_get :: "entity_cache \<Rightarrow> string \<Rightarrow> string option" where
  "cache_get cache key = (case cache key of None \<Rightarrow> None | Some v \<Rightarrow> v)"

definition relationship_properties :: "jdict \<Rightarrow> jdict" where
  "relationship_properties relationship =
     (case relationship ''source_chunk'' of
        None \<Rightarrow> Map.empty
      | Some c \<Rightarrow> [''source'' \<mapsto> c])"

text \<open>
  \<open>_create_relationship\<close>, here \<open>create_relationship_of\<close> (the store's own method has the
  name \<open>create_relationship\<close>): the success flag or the exception, and the store
  afterwards. The three names are computed first, in the order \<open>from\<close>, \<open>to\<close>, \<open>type\<close>;
  the cache is read after them.
\<close>

definition create_relationship_of ::
  "'s Neo4jHandler \<Rightarrow> entity_cache \<Rightarrow> 's \<Rightarrow> jdict \<Rightarrow> (py_error + bool) \<times> 's" where
  "create_relationship_of neo4j cache s relationship =
     (case get_text relationship ''from'' [] of
        Inl e \<Rightarrow> (Inl e, s)
      | Inr from_text \<Rightarrow>
     (case get_text relationship ''to'' [] of
        Inl e \<Rightarrow> (Inl e, s)
      | Inr to_text \<Rightarrow>
     (case get_text relationship ''type'' ''RELATED_TO'' of
        Inl e \<Rightarrow> (Inl e, s)
      | Inr type_text \<Rightarrow>
          (let from_name = lower (strip from_text);
               to_name = lower (strip to_text);
               rel_type = replace_space (upper (strip type_text))
           in if from_name = [] \<or> to_name = [] \<or> rel_type = [] then (Inr False, s)
              else
                (let from_id = cache_get cache from_name;
                     to_id = cache_get cache to_name
                 in if \<not> truthy_id from_id \<or> \<not> truthy_id to_id then (Inr False, s)
                    else create_relationship neo4j s (the from_id) (the to_id) rel_type
                           (relationship_properties relationship))))))"

text \<open>The body of the inner loop of the second pass.\<close>

definition relationship_step ::
  "'s Neo4jHandler \<Rightarrow> entity_cache \<Rightarrow> jdict \<Rightarrow> stats \<times> 's \<Rightarrow> stats \<times> 's" where
  "relationship_step neo4j cache rel = (\<lambda>(st, s).
     (case create_relationship_of neo4j cache s rel of
        (Inl e, s') \<Rightarrow> (st\<lparr>errors := errors st + 1\<rparr>, s')
      | (Inr success, s') \<Rightarrow>
          (if success then st\<lparr>relationships_created := relationships_created st + 1\<rparr> else st,
           s')))"

definition entity_pass ::
  "'s Neo4jHandler \<Rightarrow> extraction list \<Rightarrow> stats \<times> entity_cache \<times> 's \<Rightarrow> stats \<times> entity_cache \<times> 's" where
  "entity_pass neo4j extractions =
     fold (\<lambda>extraction. fold (entity_step neo4j) (entities extraction)) extractions"

definition relationship_pass ::
  "'s Neo4jHandler \<Rightarrow> entity_cache \<Rightarrow> extraction list \<Rightarrow> stats \<times> 's \<Rightarrow> stats \<times> 's" where
  "relationship_pass neo4j cache extractions =
     fold (\<lambda>extraction. fold (relationship_step neo4j cache) (relationships extraction))
       extractions"

text \<open>
  \<open>build_from_extractions\<close>, from the cache and the store as they are at the call:
  the statistics, and the cache and the store afterwards.
\<close>

definition build_from_extractions ::
  "'s Neo4jHandler \<Rightarrow> entity_cache \<Rightarrow> 's \<Rightarrow> extraction list \<Rightarrow> stats \<times> entity_cache \<times> 's" where
  "build_from_extractions neo4j cache s extractions =
     (case entity_pass neo4j extractions
             (\<lparr>entities_created = 0, entities_found = 0, relationships_created = 0, errors = 0\<rparr>,
              cache, s) of
        (st1, cache1, s1) \<Rightarrow>
          (case relationship_pass neo4j cache1 extractions (st1, s1) of
             (st2, s2) \<Rightarrow> (st2, cache1, s2)))"

text \<open>
  A store for the examples: its state is the list of relationships created so far and
  the number of nodes; a new node gets the id \<open>n\<close> followed by its number.
\<close>

definition recording_store :: "((string \<times> string \<times> string) list \<times> nat) Neo4jHandler" where
  "recording_store =
     \<lparr>create_entity_node = (\<lambda>(rels, n) t p. (Inr (Some (''n'' @ str_nat n)), (rels, n + 1))),
      create_relationship = (\<lambda>(rels, n) a b t p. (Inr True, (rels @ [(a, b, t)], n))),
      find_entity_by_name = (\<lambda>s t name. (Inr None, s)),
      get_related_entities = (\<lambda>s i d h. (Inr [], s)),
      search_entities = (\<lambda>s t l. (Inr [], s))\<rparr>"

text \<open>
  The records of the examples: the relationship from Rust to Wheat of type
  \<open>affects crop\<close>, a relationship from Wheat to Wheat, a relationship from Rust to Wheat
  whose type is \<open>null\<close>, extractions that name Wheat only, and a cache that holds Wheat
  and Rust.
\<close>

definition rust_wheat :: jdict where
  "rust_wheat = [''from'' \<mapsto> JString ''Rust'', ''to'' \<mapsto> JString ''Wheat'',
                 ''type'' \<mapsto> JString ''affects crop'']"

definition wheat_wheat :: jdict where
  "wheat_wheat = [''from'' \<mapsto> JString ''Wheat'', ''to'' \<mapsto> JString ''wheat'',
                  ''type'' \<mapsto> JString ''grows with'']"

definition rust_wheat_null :: jdict where
  "rust_wheat_null = [''from'' \<mapsto> JString ''Rust'', ''to'' \<mapsto> JString ''Wheat'',
                      ''type'' \<mapsto> JNull]"

definition wheat_only :: extraction where
  "wheat_only =
     \<lparr>entities = [[''name'' \<mapsto> ''Wheat'', ''type'' \<mapsto> ''Crop'']],
      relationships = [rust_wheat, wheat_wheat]\<rparr>"

definition wheat_null :: extraction where
  "wheat_null =
     \<lparr>entities = [[''name'' \<mapsto> ''Wheat'', ''type'' \<mapsto> ''Crop'']],
      relationships = [rust_wheat_null]\<rparr>"

definition wheat_rust_cache :: entity_cache where
  "wheat_rust_cache = [''wheat'' \<mapsto> Some ''n0'', ''rust'' \<mapsto> Some ''n1'']"

section \<open>Hybrid retriever: \<open>retrievers/hybrid_retriever.py\<close>\<close>

text \<open>
  A retriever holds the entity store and the vector store. The call
  \<open>self.pinecone.search_by_text(query, self.embed, top_k)\<close> is a parameter that gives the
  hits or raises. Exceptions of the entity store are not caught by the retriever: they
  are the \<open>Inl\<close> results of its methods.
\<close>

record 's HybridRetriever =
  neo4j :: "'s Neo4jHandler"
  search_by_text :: "'s \<Rightarrow> string \<Rightarrow> int \<Rightarrow> (py_error + result list) \<times> 's"

definition vector_search ::
  "'s HybridRetriever \<Rightarrow> 's \<Rightarrow> string \<Rightarrow> int \<Rightarrow> result list \<times> 's" where
  "vector_search self s query top_k =
     (case search_by_text self s query top_k of
        (Inr results, s') \<Rightarrow> (results, s')
      | (Inl e, s') \<Rightarrow> ([], s'))"

text \<open>
  \<open>_extract_query_entities\<close>: the names found for the terms of at least 3 characters,
  then without case-insensitive duplicates, first occurrence kept.
\<close>

fun match_names :: "result list \<Rightarrow> py_error + string list" where
  "match_names [] = Inr []"
| "match_names (m # ms) =
     (case properties m of
        None \<Rightarrow> Inl (KeyError ''properties'')
      | Some props \<Rightarrow>
          (case match_names ms of
             Inl e \<Rightarrow> Inl e
           | Inr names \<Rightarrow>
               (if get_str props ''name'' [] \<noteq> [] then Inr (get_str props ''name'' [] # names)
                else Inr names)))"

fun search_terms ::
  "'s HybridRetriever \<Rightarrow> 's \<Rightarrow> string list \<Rightarrow> string list \<Rightarrow> (py_error + string list) \<times> 's" where
  "search_terms self s [] found = (Inr found, s)"
| "search_terms self s (term # terms) found =
     (if length term < 3 then search_terms self s terms found
      else
        (case search_entities (neo4j self) s term 3 of
           (Inl e, s') \<Rightarrow> (Inl e, s')
         | (Inr matches, s') \<Rightarrow>
             (case match_names matches of
                Inl e \<Rightarrow> (Inl e, s')
              | Inr names \<Rightarrow> search_terms self s' terms (found @ names))))"

fun unique_names :: "string list \<Rightarrow> string set \<Rightarrow> string list" where
  "unique_names [] seen = []"
| "unique_names (e # es) seen =
     (if lower e \<notin> seen then e # unique_names es (insert (lower e) seen)
      else unique_names es seen)"

definition extract_query_entities ::
  "'s HybridRetriever \<Rightarrow> 's \<Rightarrow> string \<Rightarrow> (py_error + string list) \<times> 's" where
  "extract_query_entities self s query =
     (case search_terms self s (split (lower query)) [] of
        (Inl e, s') \<Rightarrow> (Inl e, s')
      | (Inr found, s') \<Rightarrow> (Inr (unique_names found {}), s'))"

text \<open>
  The loop that \<open>_graph_traversal\<close> runs over the neighbours of one entity and that
  \<open>_expand_from_vector_results\<close> runs over the new results: an element whose id is not
  in the set is appended and its id added; the loop stops as soon as the list has
  \<open>top_k\<close> elements.
\<close>

fun add_unseen :: "int \<Rightarrow> result list \<Rightarrow> result list \<times> string set \<Rightarrow> result list \<times> string set" where
  "add_unseen top_k [] acc = acc"
| "add_unseen top_k (r # rs) (found, seen) =
     (let (found', seen') =
            (if r_id r \<notin> seen then (found @ [r], insert (r_id r) seen) else (found, seen))
      in if int (length found') \<ge> top_k then (found', seen')
         else add_unseen top_k rs (found', seen'))"

text \<open>The lookup of one seed name: type \<open>Entity\<close> first, then the fixed list of types.\<close>

fun find_in_types ::
  "'s Neo4jHandler \<Rightarrow> 's \<Rightarrow> string list \<Rightarrow> string \<Rightarrow> (py_error + entity_node option) \<times> 's" where
  "find_in_types db s [] name = (Inr None, s)"
| "find_in_types db s (t # ts) name =
     (case find_entity_by_name db s t name of
        (Inl e, s') \<Rightarrow> (Inl e, s')
      | (Inr (Some entity), s') \<Rightarrow> (Inr (Some entity), s')
      | (Inr None, s') \<Rightarrow> find_in_types db s' ts name)"

definition resolve_entity ::
  "'s Neo4jHandler \<Rightarrow> 's \<Rightarrow> string \<Rightarrow> (py_error + entity_node option) \<times> 's" where
  "resolve_entity db s name =
     (case find_entity_by_name db s ''Entity'' name of
        (Inl e, s') \<Rightarrow> (Inl e, s')
      | (Inr (Some entity), s') \<Rightarrow> (Inr (Some entity), s')
      | (Inr None, s') \<Rightarrow>
          find_in_types db s' [''Crop'', ''Disease'', ''Pest'', ''Technique'', ''Chemical''] name)"

text \<open>The loop of \<open>_graph_traversal\<close> over the seed names, from \<open>all_related\<close> and \<open>seen_ids\<close>.\<close>

fun traverse ::
  "'s HybridRetriever \<Rightarrow> int \<Rightarrow> int \<Rightarrow> string list \<Rightarrow> result list \<times> string set \<Rightarrow> 's
     \<Rightarrow> (py_error + result list) \<times> 's" where
  "traverse self top_k max_hops [] (all_related, seen_ids) s = (Inr all_related, s)"
| "traverse self top_k max_hops (entity_name # names) (all_related, seen_ids) s =
     (case resolve_entity (neo4j self) s entity_name of
        (Inl e, s') \<Rightarrow> (Inl e, s')
      | (Inr None, s') \<Rightarrow> traverse self top_k max_hops names (all_related, seen_ids) s'
      | (Inr (Some entity), s') \<Rightarrow>
          (case get_related_entities (neo4j self) s' (node_id entity) ''both'' max_hops of
             (Inl e, s'') \<Rightarrow> (Inl e, s'')
           | (Inr related, s'') \<Rightarrow>
               (case add_unseen top_k related (all_related, seen_ids) of
                  (all_related', seen_ids') \<Rightarrow>
                    (if int (length all_related') \<ge> top_k then (Inr all_related', s'')
                     else traverse self top_k max_hops names (all_related', seen_ids') s''))))"

definition graph_traversal ::
  "'s HybridRetriever \<Rightarrow> 's \<Rightarrow> string list \<Rightarrow> int \<Rightarrow> int \<Rightarrow> (py_error + result list) \<times> 's" where
  "graph_traversal self s entity_names top_k max_hops =
     (case traverse self top_k max_hops entity_names ([], {}) s of
        (Inl e, s') \<Rightarrow> (Inl e, s')
      | (Inr all_related, s') \<Rightarrow> (Inr (slice_to all_related top_k), s'))"

text \<open>
  \<open>_expand_from_vector_results\<close>: the words of the \<open>text\<close> metadata of the first three
  vector hits that start with an upper-case letter are the seeds of a second traversal,
  whose results are merged after the existing ones.
\<close>

definition capitalized_words :: "result \<Rightarrow> string list" where
  "capitalized_words r =
     (let md = (case metadata r of None \<Rightarrow> Map.empty | Some m \<Rightarrow> m);
          text = get_str md ''text'' []
      in filter (\<lambda>word. word \<noteq> [] \<and> isupper (hd word)) (split text))"

definition entity_candidates :: "result list \<Rightarrow> string list" where
  "entity_candidates vector_results = concat (map capitalized_words (take 3 vector_results))"

definition expand_from_vector_results ::
  "'s HybridRetriever \<Rightarrow> 's \<Rightarrow> result list \<Rightarrow> result list \<Rightarrow> int \<Rightarrow> int
     \<Rightarrow> (py_error + result list) \<times> 's" where
  "expand_from_vector_results self s vector_results existing_graph_results top_k max_hops =
     (case graph_traversal self s (entity_candidates vector_results) top_k max_hops of
        (Inl e, s') \<Rightarrow> (Inl e, s')
      | (Inr new_results, s') \<Rightarrow>
          (case add_unseen top_k new_results
                  (existing_graph_results, set (map r_id existing_graph_results)) of
             (merged, existing_ids) \<Rightarrow> (Inr (slice_to merged top_k), s')))"

text \<open>\<open>retrieve\<close>. The test of step 4 is \<open>len(graph_results) < top_k_graph // 2\<close>.\<close>

definition retrieve ::
  "'s HybridRetriever \<Rightarrow> 's \<Rightarrow> string \<Rightarrow> int \<Rightarrow> int \<Rightarrow> int
     \<Rightarrow> (py_error + result list \<times> result list) \<times> 's" where
  "retrieve self s query top_k_vector top_k_graph max_hops =
     (case vector_search self s query top_k_vector of
        (vector_results, s1) \<Rightarrow>
          (case extract_query_entities self s1 query of
             (Inl e, s2) \<Rightarrow> (Inl e, s2)
           | (Inr query_entities, s2) \<Rightarrow>
               (case graph_traversal self s2 query_entities top_k_graph max_hops of
                  (Inl e, s3) \<Rightarrow> (Inl e, s3)
                | (Inr graph_results, s3) \<Rightarrow>
                    (if int (length graph_results) < top_k_graph div 2 then
                       (case expand_from_vector_results self s3 vector_results graph_results
                               top_k_graph max_hops of
                          (Inl e, s4) \<Rightarrow> (Inl e, s4)
                        | (Inr expanded, s4) \<Rightarrow> (Inr (vector_results, expanded), s4))
                     else (Inr (vector_results, graph_results), s3)))))"

text \<open>
  A small store for the examples. The entity store knows Rust (node \<open>e1\<close>, neighbours
  \<open>a\<close>, \<open>b\<close>) and Wheat (node \<open>e2\<close>, neighbours \<open>b\<close>, \<open>c\<close>, \<open>d\<close>, \<open>e\<close>), and finds Rust for
  the search term \<open>rust\<close>. The vector store answers every query with one hit whose text
  is \<open>Wheat is a crop\<close>.
\<close>

definition graph_hit :: "string \<Rightarrow> result" where
  "graph_hit i =
     \<lparr>r_id = i, score = None, metadata = None, labels = Some [''Entity''],
      properties = Some [''name'' \<mapsto> i], relationship_path = Some [''AFFECTS''],
      normalized_score = None, source = None, final_score = None\<rparr>"

definition farm_hit :: result where
  "farm_hit =
     \<lparr>r_id = ''chunk_0'', score = Some (9 / 10),
      metadata = Some [''text'' \<mapsto> ''Wheat is a crop''], labels = None,
      properties = None, relationship_path = None,
      normalized_score = None, source = None, final_score = None\<rparr>"

definition farm_store :: "unit Neo4jHandler" where
  "farm_store =
     \<lparr>create_entity_node = (\<lambda>s t p. (Inr None, s)),
      create_relationship = (\<lambda>s a b t p. (Inr False, s)),
      find_entity_by_name = (\<lambda>s t name.
         (if t = ''Entity'' \<and> lower name = ''rust''
            then Inr (Some \<lparr>node_id = ''e1'', node_props = [''name'' \<mapsto> ''Rust'']\<rparr>)
          else if t = ''Entity'' \<and> lower name = ''wheat''
            then Inr (Some \<lparr>node_id = ''e2'', node_props = [''name'' \<mapsto> ''Wheat'']\<rparr>)
          else Inr None, s)),
      get_related_entities = (\<lambda>s i d h.
         (if i = ''e1'' then Inr [graph_hit ''a'', graph_hit ''b'']
          else if i = ''e2'' then Inr [graph_hit ''b'', graph_hit ''c'', graph_hit ''d'',
                                      graph_hit ''e'']
          else Inr [], s)),
      search_entities = (\<lambda>s term limit.
         (if term = ''rust''
            then Inr [\<lparr>r_id = ''e1'', score = None, metadata = None, labels = Some [''Entity''],
                       properties = Some [''name'' \<mapsto> ''Rust''], relationship_path = None,
                       normalized_score = None, source = None, final_score = None\<rparr>]
          else Inr [], s))\<rparr>"

definition farm :: "unit HybridRetriever" where
  "farm = \<lparr>neo4j = farm_store, search_by_text = (\<lambda>s q k. (Inr [farm_hit], s))\<rparr>"

section \<open>Reranking: \<open>HybridRetriever.rerank_results\<close>\<close>

text \<open>
  \<open>rerank_results\<close> writes into the dictionaries of its two argument lists, and the same
  dictionary may occur more than once. The dictionaries live in a heap, a function from
  addresses to results; a list of results is a list of addresses.
\<close>

type_synonym heap = "nat \<Rightarrow> result"

text \<open>\<open>r.get("score", 0)\<close> and \<open>len(r.get("relationship_path", []))\<close>.\<close>

definition get_score :: "result \<Rightarrow> real" where
  "get_score r = (case score r of None \<Rightarrow> 0 | Some x \<Rightarrow> x)"

definition path_length :: "result \<Rightarrow> nat" where
  "path_length r = (case relationship_path r of None \<Rightarrow> 0 | Some p \<Rightarrow> length p)"

text \<open>\<open>max(...)\<close> over a non-empty sequence.\<close>

definition max_of :: "real list \<Rightarrow> real" where
  "max_of xs = fold max (tl xs) (hd xs)"


text \<open>
  The four assignments of the loops, each as the update of one dictionary. The read
  \<open>result["normalized_score"]\<close> follows a loop that has set the key in every dictionary
  of the list (lemma \<open>normalized_score_set\<close>).
\<close>

definition normalize_vector :: "(real \<Rightarrow> real) \<Rightarrow> real \<Rightarrow> result \<Rightarrow> result" where
  "normalize_vector rnd max_vector_score r =
     r\<lparr>normalized_score :=
          Some (if max_vector_score > 0 then rnd (get_score r / max_vector_score) else 0),
       source := Some ''vector''\<rparr>"

definition graph_score :: "(real \<Rightarrow> real) \<Rightarrow> result \<Rightarrow> real" where
  "graph_score rnd r =
     (if path_length r > 0 then rnd (1 / rnd (1 + real (path_length r))) else rnd (8 / 10))"

definition normalize_graph :: "(real \<Rightarrow> real) \<Rightarrow> result \<Rightarrow> result" where
  "normalize_graph rnd r =
     r\<lparr>normalized_score := Some (graph_score rnd r), source := Some ''graph''\<rparr>"

definition set_final :: "(real \<Rightarrow> real) \<Rightarrow> real \<Rightarrow> result \<Rightarrow> result" where
  "set_final rnd weight r =
     r\<lparr>final_score := Some (rnd (the (normalized_score r) * weight))\<rparr>"

text \<open>A \<open>for\<close> loop that updates each dictionary of a list in turn.\<close>

definition for_each :: "(result \<Rightarrow> result) \<Rightarrow> nat list \<Rightarrow> heap \<Rightarrow> heap" where
  "for_each f addrs h = fold (\<lambda>a h. h(a := f (h a))) addrs h"

text \<open>\<open>x.get("final_score", 0)\<close>, the sort key.\<close>

definition get_final :: "result \<Rightarrow> real" where
  "get_final r = (case final_score r of None \<Rightarrow> 0 | Some x \<Rightarrow> x)"

text \<open>
  The heap after the loops. \<open>list.sort(key, reverse=True)\<close> is stable and descending:
  it is the stable ascending sort by the negated key.
\<close>

definition rerank_heap ::
  "(real \<Rightarrow> real) \<Rightarrow> heap \<Rightarrow> nat list \<Rightarrow> nat list \<Rightarrow> real \<Rightarrow> heap" where
  "rerank_heap rnd h vector_results graph_results vector_weight =
     (let graph_weight = rnd (1 - vector_weight);
          h1 = (if vector_results \<noteq> [] then
                  (let max_vector_score = max_of (map (\<lambda>a. get_score (h a)) vector_results)
                   in for_each (normalize_vector rnd max_vector_score) vector_results h)
                else h);
          h2 = for_each (normalize_graph rnd) graph_results h1;
          h3 = for_each (set_final rnd vector_weight) vector_results h2;
          h4 = for_each (set_final rnd graph_weight) graph_results h3
      in h4)"

definition rerank_results ::
  "(real \<Rightarrow> real) \<Rightarrow> heap \<Rightarrow> nat list \<Rightarrow> nat list \<Rightarrow> real \<Rightarrow> heap \<times> nat list" where
  "rerank_results rnd h vector_results graph_results vector_weight =
     (let h4 = rerank_heap rnd h vector_results graph_results vector_weight;
          all_results = vector_results @ graph_results
      in (h4, sort_key (\<lambda>a. - get_final (h4 a)) all_results))"

text \<open>The keys a result has before reranking: a result without the three added keys.\<close>

definition input_keys :: "result \<Rightarrow> result" where
  "input_keys r = r\<lparr>normalized_score := None, source := None, final_score := None\<rparr>"

text \<open>A heap for the examples: at address \<open>n\<close> a vector hit with the \<open>n\<close>-th score.\<close>

definition scored_heap :: "real list \<Rightarrow> heap" where
  "scored_heap scores n =
     \<lparr>r_id = ''chunk_'' @ str_nat n,
      score = (if n < length scores then Some (scores ! n) else None),
      metadata = None, labels = None, properties = None,
      relationship_path = (if n < length scores then None else Some []),
      normalized_score = None, source = None, final_score = None\<rparr>"

text \<open>
  Two roundings for the examples. \<open>exact\<close> rounds nothing; it agrees with the float
  arithmetic on a run in which every operand and result that decides the order is a
  float, such as the runs on the scores \<open>-2\<close>, \<open>-1\<close> and on \<open>1\<close>, \<open>0.5\<close>.
  \<open>floor_quarter\<close> rounds down to a multiple of \<open>1/4\<close>: a coarse rounding that, like
  the float division, maps different quotients to one value.
\<close>

definition exact :: "real \<Rightarrow> real" where
  "exact x = x"


section \<open>Properties of the embedding provider\<close>

text \<open>
  Claim C8, as stated: when the external call fails, every fallback vector has the
  dimension the vector store was configured with. It fails for a store configured with
  dimension 768: the call is refused, and the one vector returned has length 1024.
\<close>

theorem embed_texts_dimension_counterexample:
  "PineconeHandler_init (\<lambda>_. None) (\<lambda>_ _ _. Inr ()) (Some ''k'') (Some ''idx'') (Some 768) =
     Inr \<lparr>api_key = ''k'', index_name = ''idx'', embedding_dimension = 768\<rparr>
   \<and> request_embeddings (\<lambda>_ _ _. Inl RequestException)
        \<lparr>llama_api_key = ''k'', llama_model = ''m'', api_url = ''u''\<rparr> [''wheat'']
       = Inl RequestException
   \<and> map (\<lambda>v. int (length v))
        (embed_texts (\<lambda>_ _ _. Inl RequestException)
           \<lparr>llama_api_key = ''k'', llama_model = ''m'', api_url = ''u''\<rparr> [''wheat''])
       = [1024]
   \<and> (1024::int) \<noteq> 768"
  by (simp add: PineconeHandler_init_def request_embeddings_def embed_texts_def)

text \<open>
  Claim C8, amended: when any step of the external call fails, \<open>embed_texts\<close> returns
  (it has no error result) one vector per input text, each the zero vector of length
  1024, whatever dimension the vector store was configured with.
\<close>

theorem embed_texts_fallback:
  assumes "request_embeddings post self texts = Inl e"
  shows "embed_texts post self texts = replicate (length texts) (replicate 1024 0)
       \<and> length (embed_texts post self texts) = length texts
       \<and> (\<forall>v \<in> set (embed_texts post self texts). length v = 1024 \<and> set v \<subseteq> {0})"
  using assms by (simp add: embed_texts_def map_replicate_const)

theorem embed_texts_fallback_witness:
  "request_embeddings (\<lambda>_ _ _. Inr \<lparr>status_code = 503, json_body = None\<rparr>)
     \<lparr>llama_api_key = ''k'', llama_model = ''m'', api_url = ''u''\<rparr> [''wheat'', ''rust'']
     = Inl (HTTPError 503)
   \<and> embed_texts (\<lambda>_ _ _. Inr \<lparr>status_code = 503, json_body = None\<rparr>)
       \<lparr>llama_api_key = ''k'', llama_model = ''m'', api_url = ''u''\<rparr> [''wheat'', ''rust'']
     = [replicate 1024 0, replicate 1024 0]"
proof -
  have h: "request_embeddings (\<lambda>_ _ _. Inr \<lparr>status_code = 503, json_body = None\<rparr>)
     \<lparr>llama_api_key = ''k'', llama_model = ''m'', api_url = ''u''\<rparr> [''wheat'', ''rust'']
     = Inl (HTTPError 503)"
    by (simp add: request_embeddings_def raise_for_status_def)
  show ?thesis
    using h embed_texts_fallback [OF h] by (simp add: numeral_2_eq_2)
qed

section \<open>Properties of the document chunker\<close>

lemma rfind_down_hit:
  "k' < k \<Longrightarrow> s ! (lo + k') = c \<Longrightarrow> (\<forall>j. k' < j \<and> j < k \<longrightarrow> s ! (lo + j) \<noteq> c)
     \<Longrightarrow> rfind_down s c lo k = int (lo + k')"
proof (induction k)
  case 0
  then show ?case by simp
next
  case (Suc k)
  show ?case
  proof (cases "k' = k")
    case True
    with Suc.prems show ?thesis by simp
  next
    case False
    with Suc.prems have "k' < k" by simp
    moreover from Suc.prems False have "s ! (lo + k) \<noteq> c" by simp
    ultimately show ?thesis using Suc by simp
  qed
qed

lemma rfind_down_miss:
  "(\<forall>j < k. s ! (lo + j) \<noteq> c) \<Longrightarrow> rfind_down s c lo k = -1"
  by (induction k) simp_all

lemma length_long_sentence_text: "length long_sentence_text = 1052"
  by (simp add: long_sentence_text_def)

lemma nth_long_sentence_text:
  "i < 1052 \<Longrightarrow> long_sentence_text ! i = (if i = 250 then CHR ''.'' else CHR ''x'')"
  by (auto simp: long_sentence_text_def nth_append nth_Cons split: nat.splits)

lemma rfind_period_0: "rfind long_sentence_text CHR ''.'' 0 1000 = 250"
proof -
  have "rfind_down long_sentence_text CHR ''.'' 0 1000 = int (0 + 250)"
    by (rule rfind_down_hit) (simp_all add: nth_long_sentence_text)
  then show ?thesis
    by (simp add: rfind_def clamp_index_def length_long_sentence_text)
qed

lemma rfind_period_51: "rfind long_sentence_text CHR ''.'' 51 1051 = 250"
proof -
  have "rfind_down long_sentence_text CHR ''.'' 51 1000 = int (51 + 199)"
    by (rule rfind_down_hit) (simp_all add: nth_long_sentence_text)
  then show ?thesis
    by (simp add: rfind_def clamp_index_def length_long_sentence_text)
qed

lemma rfind_newline: "rfind long_sentence_text CHR 0x0A i j = -1"
proof -
  have "rfind_down long_sentence_text CHR 0x0A lo k = -1" if "lo + k \<le> 1052" for lo k
    using that by (intro rfind_down_miss) (simp add: nth_long_sentence_text)
  then show ?thesis
    by (simp add: rfind_def clamp_index_def length_long_sentence_text Let_def)
qed

lemma window_end_0: "window_end (DocumentChunker_init None None) long_sentence_text 0 = 251"
  by (simp add: window_end_def DocumentChunker_init_def length_long_sentence_text
      rfind_period_0 rfind_newline)

lemma window_end_51: "window_end (DocumentChunker_init None None) long_sentence_text 51 = 251"
  by (simp add: window_end_def DocumentChunker_init_def length_long_sentence_text
      rfind_period_51 rfind_newline)

text \<open>
  From \<open>start = 0\<close> the window is pulled back to end at 251, so the next start is
  \<open>251 - 200 = 51\<close>; from \<open>start = 51\<close> the window \<open>[51, 1051)\<close> is pulled back to the
  same period, and the next start is 51 again.
\<close>

lemma chunk_step_0:
  "fst (chunk_step (DocumentChunker_init None None) long_sentence_text doc_id 0 num chunks) = 51"
  by (simp add: chunk_step_def window_end_0 length_long_sentence_text Let_def split_beta)
    (simp add: DocumentChunker_init_def)

lemma chunk_step_51:
  "fst (chunk_step (DocumentChunker_init None None) long_sentence_text doc_id 51 num chunks) = 51"
  by (simp add: chunk_step_def window_end_51 length_long_sentence_text Let_def split_beta)
    (simp add: DocumentChunker_init_def)

lemma chunk_loop_51:
  "chunk_loop (DocumentChunker_init None None) long_sentence_text doc_id 51 num chunks = None"
proof (rule ccontr)
  assume "chunk_loop (DocumentChunker_init None None) long_sentence_text doc_id 51 num chunks
            \<noteq> None"
  then obtain y where y:
    "chunk_loop (DocumentChunker_init None None) long_sentence_text doc_id 51 num chunks = Some y"
    by auto
  have "\<not> (self = DocumentChunker_init None None \<and> t = long_sentence_text \<and> start = 51)"
    if h: "chunk_loop self t doc start n cs = Some r" for self t doc start n cs r
  proof (rule chunk_loop.raw_induct
      [where P = "\<lambda>self t doc start n cs r.
         \<not> (self = DocumentChunker_init None None \<and> t = long_sentence_text \<and> start = 51)",
        OF _ h])
    fix loop self t doc start n cs r
    assume IH: "\<And>self t doc start n cs r. loop self t doc start n cs = Some r \<Longrightarrow>
        \<not> (self = DocumentChunker_init None None \<and> t = long_sentence_text \<and> start = 51)"
      and body: "(if start < int (length t) then
          (case chunk_step self t doc start n cs of
            (start', num', chunks') \<Rightarrow> loop self t doc start' num' chunks')
          else Some cs) = Some r"
    show "\<not> (self = DocumentChunker_init None None \<and> t = long_sentence_text \<and> start = 51)"
    proof
      assume a: "self = DocumentChunker_init None None \<and> t = long_sentence_text \<and> start = 51"
      obtain s' n' cs' where st: "chunk_step self t doc start n cs = (s', n', cs')"
        by (cases "chunk_step self t doc start n cs") auto
      with a chunk_step_51 [of doc n cs] have "s' = 51" by simp
      with body a st have "loop self t doc 51 n' cs' = Some r"
        by (simp add: length_long_sentence_text)
      with IH a show False by blast
    qed
  qed
  with y show False by blast
qed

text \<open>
  Claim C9 says that \<open>chunk_text\<close> with the default configuration terminates on every
  input. On \<open>long_sentence_text\<close> the loop never returns: the value of the partial
  function is \<open>None\<close>.
\<close>

theorem chunk_text_diverges:
  "chunk_text (DocumentChunker_init None None) long_sentence_text doc_id = None"
proof -
  obtain s' n' cs' where st:
    "chunk_step (DocumentChunker_init None None) long_sentence_text doc_id 0 0 [] = (s', n', cs')"
    by (cases "chunk_step (DocumentChunker_init None None) long_sentence_text doc_id 0 0 []") auto
  with chunk_step_0 [of doc_id 0 "[]"] have "s' = 51" by simp
  with st show ?thesis
    unfolding chunk_text_def
    by (subst chunk_loop.simps) (simp add: length_long_sentence_text chunk_loop_51)
qed

text \<open>A text shorter than the window is returned as one chunk: the loop does return there.\<close>

lemma chunk_text_short:
  "chunk_text (DocumentChunker_init None None) ''Wheat rust.'' None =
     Some [\<lparr>c_id = ''chunk_0'', c_text = ''Wheat rust.'', start_pos = 0, end_pos = 11,
            c_doc_id = None, chunk_num = 0\<rparr>]"
  unfolding chunk_text_def
  apply (subst chunk_loop.simps)
  apply (simp add: chunk_step_def window_end_def DocumentChunker_init_def slice_def
      clamp_index_def strip_def isspace_def whitespace_def make_chunk_id_def)
  apply (subst chunk_loop.simps)
  apply simp
  done

section \<open>Properties of the LLM handler\<close>

lemma find_from_eq:
  "find_from s c i = (if c \<in> set s then int (i + first_index c s) else -1)"
  by (induction s arbitrary: i) (auto simp: first_index_def)

lemma str_find_eq:
  "str_find s c = (if c \<in> set s then int (first_index c s) else -1)"
  by (simp add: str_find_def find_from_eq)

lemma rfind_down_prefix:
  "k \<le> length s \<Longrightarrow>
     rfind_down s c 0 k =
       (if c \<in> set (take k s) then int (last_index c (take k s)) else -1)"
proof (induction k)
  case 0
  then show ?case by simp
next
  case (Suc k)
  then have k: "k < length s" by simp
  then have t: "take (Suc k) s = take k s @ [s ! k]"
    by (simp add: take_Suc_conv_app_nth)
  show ?case
  proof (cases "s ! k = c")
    case True
    with k t show ?thesis by (simp add: last_index_def)
  next
    case False
    with Suc k t show ?thesis by (auto simp: last_index_def)
  qed
qed

lemma rfind_whole:
  "rfind s c 0 (int (length s)) = (if c \<in> set s then int (last_index c s) else -1)"
  using rfind_down_prefix [of "length s" s c]
  by (simp add: rfind_def clamp_index_def)

lemma first_index_le: "first_index c s \<le> length s"
  by (simp add: first_index_def length_takeWhile_le)

lemma last_index_lt: "c \<in> set s \<Longrightarrow> last_index c s < length s"
  by (cases s) (auto simp: last_index_def)

lemma slice_nat:
  "j \<le> length s \<Longrightarrow> i \<le> length s \<Longrightarrow> slice s (int i) (int j) = take (j - i) (drop i s)"
  by (simp add: slice_def clamp_index_def)

lemma extract_entities_eq:
  "extract_entities chat loads self text =
     spec_extract loads
       (generate chat self (extraction_prompt text) (Some extraction_system_prompt) 0.3 None)"
proof -
  define r where "r = generate chat self (extraction_prompt text) (Some extraction_system_prompt) 0.3 None"
  show ?thesis
  proof (cases "CHR ''{'' \<in> set r \<and> CHR ''}'' \<in> set r")
    case False
    then show ?thesis
      unfolding extract_entities_def spec_extract_def brace_substring_def r_def [symmetric] Let_def
      by (auto simp: str_find_eq rfind_whole)
  next
    case True
    then have l: "last_index CHR ''}'' r + 1 \<le> length r"
      using last_index_lt [of "CHR ''}''" r] by simp
    have s: "slice r (int (first_index CHR ''{'' r)) (int (last_index CHR ''}'' r) + 1) =
        take (last_index CHR ''}'' r + 1 - first_index CHR ''{'' r) (drop (first_index CHR ''{'' r) r)"
      using slice_nat [OF l first_index_le [of "CHR ''{''" r]] by (simp add: add.commute)
    from True show ?thesis
      unfolding extract_entities_def spec_extract_def brace_substring_def r_def [symmetric] Let_def
      by (simp add: str_find_eq rfind_whole s)
  qed
qed

text \<open>
  Claim C7: \<open>extract_entities\<close> parses the substring from the first \<open>{\<close> to the last
  \<open>}\<close> of the response; without such a pair of braces, or when parsing fails, it
  returns the empty structure. It has no error result: nothing is raised to the caller.
\<close>

theorem extract_entities_braces:
  "extract_entities chat loads self text =
     spec_extract loads
       (generate chat self (extraction_prompt text) (Some extraction_system_prompt) 0.3 None)
   \<and> (brace_substring
         (generate chat self (extraction_prompt text) (Some extraction_system_prompt) 0.3 None)
          = None
        \<longrightarrow> extract_entities chat loads self text = empty_extraction)
   \<and> (\<forall>sub. brace_substring
         (generate chat self (extraction_prompt text) (Some extraction_system_prompt) 0.3 None)
          = Some sub \<and> loads sub = None
        \<longrightarrow> extract_entities chat loads self text = empty_extraction)"
  by (simp add: extract_entities_eq spec_extract_def)

text \<open>
  The scenario of the specification: the braces of \<open>scenario_response\<close> enclose the JSON
  text, and the result is the empty structure; so it is when the client call itself fails.
\<close>

lemma scenario_braces:
  "brace_substring scenario_response = Some ''{\"entities\":[],\"relationships\":[]}''"
  by (simp add: brace_substring_def scenario_response_def first_index_def last_index_def)

theorem extract_entities_braces_witness:
  "brace_substring scenario_response = Some ''{\"entities\":[],\"relationships\":[]}''
   \<and> extract_entities (\<lambda>_ _ _. Inr scenario_response) scenario_loads
         \<lparr>model = ''llama3.1'', host = ''http://localhost:11434''\<rparr> ''Rust affects wheat.''
       = empty_extraction
   \<and> brace_substring [] = None
   \<and> extract_entities (\<lambda>_ _ _. Inl ServiceUnavailable) scenario_loads
         \<lparr>model = ''llama3.1'', host = ''http://localhost:11434''\<rparr> ''Rust affects wheat.''
       = empty_extraction"
proof -
  have g1: "generate (\<lambda>_ _ _. Inr scenario_response) self p sp t m = scenario_response"
    for self p sp t m
    by (simp add: generate_def)
  have g2: "generate (\<lambda>_ _ _. Inl ServiceUnavailable) self p sp t m = []" for self p sp t m
    by (simp add: generate_def)
  have b: "brace_substring [] = None"
    by (simp add: brace_substring_def)
  have l: "scenario_loads ''{\"entities\":[],\"relationships\":[]}'' = Some empty_extraction"
    by (simp add: scenario_loads_def)
  show ?thesis
    using extract_entities_braces [of "\<lambda>_ _ _. Inr scenario_response" scenario_loads
        "\<lparr>model = ''llama3.1'', host = ''http://localhost:11434''\<rparr>" "''Rust affects wheat.''"]
      extract_entities_braces [of "\<lambda>_ _ _. Inl ServiceUnavailable" scenario_loads
        "\<lparr>model = ''llama3.1'', host = ''http://localhost:11434''\<rparr>" "''Rust affects wheat.''"]
    by (simp add: g1 g2 b l scenario_braces spec_extract_def)
qed

section \<open>Properties of the graph builder\<close>

lemmas str_eval = strip_def isspace_def whitespace_def lower_def lower_char_def upper_def
  upper_char_def ascii_uppercase_def ascii_lowercase_def replace_space_def get_str_def

lemma wheat_step:
  "entity_step recording_store [''name'' \<mapsto> ''Wheat'', ''type'' \<mapsto> ''Crop'']
     (st, Map.empty, ([], 0))
   = (st\<lparr>entities_found := entities_found st + 1\<rparr>, [''wheat'' \<mapsto> Some ''n0''], ([], 1))"
  by (simp add: entity_step_def create_or_get_entity_def get_or_create_entity_def
      recording_store_def entity_properties_def truthy_id_def str_eval)

text \<open>
  Claim C4 says that the first occurrence of a fresh name in a run with an empty cache
  is counted in \<open>entities_created\<close>. The code tests the cache after
  \<open>_create_or_get_entity\<close> has stored the name in it, and counts the entity as found.
\<close>

theorem first_occurrence_counted_found:
  "fst (build_from_extractions recording_store Map.empty ([], 0)
     [\<lparr>entities = [[''name'' \<mapsto> ''Wheat'', ''type'' \<mapsto> ''Crop'']], relationships = []\<rparr>])
   = \<lparr>entities_created = 0, entities_found = 1, relationships_created = 0, errors = 0\<rparr>"
  by (simp add: build_from_extractions_def entity_pass_def relationship_pass_def wheat_step)

text \<open>
  More generally, an entity whose name has no surrounding whitespace never increments
  \<open>entities_created\<close>, whatever the cache held before.
\<close>

lemma create_or_get_entity_key:
  assumes "create_or_get_entity db cache s entity = (Inr i, cache', s')" "truthy_id i"
  shows "lower (strip (get_str entity ''name'' [])) \<in> dom cache'"
  using assms
  by (auto simp: create_or_get_entity_def Let_def truthy_id_def
      split: if_splits option.splits prod.splits sum.splits)

lemma entity_step_never_created:
  assumes "strip (get_str entity ''name'' []) = get_str entity ''name'' []"
  shows "entities_created (fst (entity_step db entity (st, cache, s))) = entities_created st"
proof (cases "create_or_get_entity db cache s entity")
  case (fields r cache' s')
  show ?thesis
  proof (cases r)
    case (Inl e)
    with fields show ?thesis by (simp add: entity_step_def)
  next
    case (Inr i)
    with fields assms create_or_get_entity_key [of db cache s entity i cache' s']
    show ?thesis by (auto simp: entity_step_def)
  qed
qed

lemma get_text_valued: "is_text (d key) \<Longrightarrow> get_text d key dflt = Inr (text_of (d key) dflt)"
  by (simp add: get_text_def)

lemma create_relationship_of_text:
  assumes "text_valued rel"
  shows "create_relationship_of db cache s rel =
           (if from_name rel = [] \<or> to_name rel = [] \<or> relationship_type rel = []
              then (Inr False, s)
            else if \<not> truthy_id (cache_get cache (from_name rel))
                    \<or> \<not> truthy_id (cache_get cache (to_name rel))
              then (Inr False, s)
            else create_relationship db s (the (cache_get cache (from_name rel)))
                   (the (cache_get cache (to_name rel))) (relationship_type rel)
                   (relationship_properties rel))"
  using assms
  by (simp add: create_relationship_of_def text_valued_def get_text_valued Let_def
      from_name_def to_name_def relationship_type_def)

lemma create_relationship_of_error:
  assumes "\<not> text_valued rel"
  shows "create_relationship_of db cache s rel = (Inl (AttributeError ''strip''), s)"
  using assms
  by (auto simp: create_relationship_of_def text_valued_def get_text_def)

lemma malformed_step:
  assumes "\<not> text_valued rel"
  shows "relationship_step db cache rel (st, s) = (st\<lparr>errors := errors st + 1\<rparr>, s)"
  by (simp add: relationship_step_def create_relationship_of_error [OF assms])

lemma unresolved_skip:
  assumes "text_valued rel"
    and "\<not> truthy_id (cache_get cache (from_name rel))
         \<or> \<not> truthy_id (cache_get cache (to_name rel))"
  shows "create_relationship_of db cache s rel = (Inr False, s)"
  using assms(2) by (auto simp: create_relationship_of_text [OF assms(1)])

lemma unresolved_step:
  assumes "text_valued rel"
    and "\<not> truthy_id (cache_get cache (from_name rel))
         \<or> \<not> truthy_id (cache_get cache (to_name rel))"
  shows "relationship_step db cache rel = id"
  by (simp add: relationship_step_def fun_eq_iff unresolved_skip [OF assms])

lemma entity_pass_relationships:
  "entity_pass db (xs @ x\<lparr>relationships := rs\<rparr> # ys) = entity_pass db (xs @ x # ys)"
  by (simp add: entity_pass_def)

lemma relationship_pass_drop:
  assumes "relationship_step db cache rel = id" "relationships x = rs1 @ rel # rs2"
  shows "relationship_pass db cache (xs @ x # ys)
       = relationship_pass db cache (xs @ x\<lparr>relationships := rs1 @ rs2\<rparr> # ys)"
  using assms by (simp add: relationship_pass_def)

lemma wheat_pass:
  "entities x = [[''name'' \<mapsto> ''Wheat'', ''type'' \<mapsto> ''Crop'']] \<Longrightarrow>
   entity_pass recording_store [x]
     (\<lparr>entities_created = 0, entities_found = 0, relationships_created = 0, errors = 0\<rparr>,
      Map.empty, ([], 0))
   = (\<lparr>entities_created = 0, entities_found = 1, relationships_created = 0, errors = 0\<rparr>,
      [''wheat'' \<mapsto> Some ''n0''], ([], 1))"
  by (simp add: entity_pass_def wheat_step)

lemma rust_unresolved:
  "cache_get [''wheat'' \<mapsto> Some ''n0''] (from_name rust_wheat) = None"
  "cache_get [''wheat'' \<mapsto> Some ''n0''] (from_name rust_wheat_null) = None"
  by (simp_all add: rust_wheat_def rust_wheat_null_def from_name_def cache_get_def str_eval)

lemma wheat_wheat_step:
  "relationship_step recording_store [''wheat'' \<mapsto> Some ''n0''] wheat_wheat (st, ([], 1))
     = (st\<lparr>relationships_created := relationships_created st + 1\<rparr>,
        ([(''n0'', ''n0'', ''GROWS_WITH'')], 1))"
  by (simp add: relationship_step_def create_relationship_of_def get_text_def wheat_wheat_def
      cache_get_def truthy_id_def recording_store_def str_eval)

text \<open>
  Claim C6, as stated: a relationship whose \<open>from\<close> name cannot be resolved increments
  neither \<open>relationships_created\<close> nor \<open>errors\<close>. The names and the type are computed
  before the cache is read: for the record \<open>{"from": "Rust", "to": "Wheat", "type": null}\<close>,
  with Rust not in the cache, \<open>.strip()\<close> on \<open>None\<close> raises, and the run counts one error.
\<close>

theorem unresolved_relationship_error_counterexample:
  "cache_get [''wheat'' \<mapsto> Some ''n0''] (from_name rust_wheat_null) = None
   \<and> build_from_extractions recording_store Map.empty ([], 0) [wheat_null]
       = (\<lparr>entities_created = 0, entities_found = 1, relationships_created = 0, errors = 1\<rparr>,
          [''wheat'' \<mapsto> Some ''n0''], ([], 1))"
proof -
  have "\<not> text_valued rust_wheat_null"
    by (simp add: text_valued_def rust_wheat_null_def)
  then have "relationship_step recording_store [''wheat'' \<mapsto> Some ''n0''] rust_wheat_null
      (\<lparr>entities_created = 0, entities_found = 1, relationships_created = 0, errors = 0\<rparr>,
       ([], 1))
    = (\<lparr>entities_created = 0, entities_found = 1, relationships_created = 0, errors = 1\<rparr>,
       ([], 1))"
    by (simp add: malformed_step)
  then show ?thesis
    by (simp add: build_from_extractions_def wheat_pass relationship_pass_def wheat_null_def
        rust_unresolved)
qed

text \<open>
  Claim C6, amended: a relationship whose \<open>from\<close>, \<open>to\<close> and \<open>type\<close> values are strings
  (or absent) and whose \<open>from\<close> or \<open>to\<close> name has no id in the session cache as the first
  pass has left it (the name is not a key, or its entry is \<open>None\<close> or empty) is skipped:
  \<open>_create_relationship\<close> returns \<open>False\<close> without a call to the store, the step changes
  neither the statistics nor the store, and the whole run gives the same statistics,
  cache and store as the run on the input without that relationship, so the
  relationships before and after it are processed as they are without it. A relationship
  with another value under one of the three keys raises, and the step increments
  \<open>errors\<close>, whether its names can be resolved or not.
\<close>

theorem unresolved_relationship_skipped:
  assumes "cache1 = fst (snd (entity_pass db (xs @ x # ys)
             (\<lparr>entities_created = 0, entities_found = 0, relationships_created = 0, errors = 0\<rparr>,
              cache, s)))"
    and "relationships x = rs1 @ rel # rs2"
    and "text_valued rel"
    and "\<not> truthy_id (cache_get cache1 (from_name rel))
         \<or> \<not> truthy_id (cache_get cache1 (to_name rel))"
  shows "create_relationship_of db cache1 s' rel = (Inr False, s')
       \<and> relationship_step db cache1 rel (st, s') = (st, s')
       \<and> build_from_extractions db cache s (xs @ x # ys)
           = build_from_extractions db cache s (xs @ x\<lparr>relationships := rs1 @ rs2\<rparr> # ys)
       \<and> (\<not> text_valued rel' \<longrightarrow>
            relationship_step db cache' rel' (st, s') = (st\<lparr>errors := errors st + 1\<rparr>, s'))"
proof -
  have a: "create_relationship_of db cache1 s' rel = (Inr False, s')"
    by (rule unresolved_skip [OF assms(3,4)])
  have b: "relationship_step db cache1 rel = id"
    by (rule unresolved_step [OF assms(3,4)])
  obtain st1 c1 s1 where p: "entity_pass db (xs @ x # ys)
             (\<lparr>entities_created = 0, entities_found = 0, relationships_created = 0, errors = 0\<rparr>,
              cache, s) = (st1, c1, s1)"
    by (metis prod_cases3)
  with assms(1) have c: "c1 = cache1" by simp
  have "build_from_extractions db cache s (xs @ x # ys)
           = build_from_extractions db cache s (xs @ x\<lparr>relationships := rs1 @ rs2\<rparr> # ys)"
    unfolding build_from_extractions_def entity_pass_relationships p
    using relationship_pass_drop [OF b assms(2), of xs ys] c by simp
  with a b show ?thesis by (simp add: malformed_step)
qed

text \<open>
  In the run on \<open>wheat_only\<close> the relationship from Rust is skipped and the one after
  it, from Wheat to Wheat, is created.
\<close>

theorem unresolved_relationship_skipped_witness:
  "text_valued rust_wheat
   \<and> cache_get [''wheat'' \<mapsto> Some ''n0''] (from_name rust_wheat) = None
   \<and> build_from_extractions recording_store Map.empty ([], 0) [wheat_only]
       = build_from_extractions recording_store Map.empty ([], 0)
           [wheat_only\<lparr>relationships := [wheat_wheat]\<rparr>]
   \<and> build_from_extractions recording_store Map.empty ([], 0) [wheat_only]
       = (\<lparr>entities_created = 0, entities_found = 1, relationships_created = 1, errors = 0\<rparr>,
          [''wheat'' \<mapsto> Some ''n0''], ([(''n0'', ''n0'', ''GROWS_WITH'')], 1))"
proof -
  have h2: "relationships wheat_only = [] @ rust_wheat # [wheat_wheat]"
    by (simp add: wheat_only_def)
  have h3: "text_valued rust_wheat"
    by (simp add: text_valued_def rust_wheat_def)
  have w: "entity_pass recording_store [wheat_only]
             (\<lparr>entities_created = 0, entities_found = 0, relationships_created = 0, errors = 0\<rparr>,
              Map.empty, ([], 0))
       = (\<lparr>entities_created = 0, entities_found = 1, relationships_created = 0, errors = 0\<rparr>,
          [''wheat'' \<mapsto> Some ''n0''], ([], 1))"
    using wheat_pass [of wheat_only] by (simp add: wheat_only_def)
  have h4: "\<not> truthy_id (cache_get
          (fst (snd (entity_pass recording_store ([] @ wheat_only # [])
             (\<lparr>entities_created = 0, entities_found = 0, relationships_created = 0, errors = 0\<rparr>,
              Map.empty, ([], 0)))))
          (from_name rust_wheat))
      \<or> \<not> truthy_id (cache_get
          (fst (snd (entity_pass recording_store ([] @ wheat_only # [])
             (\<lparr>entities_created = 0, entities_found = 0, relationships_created = 0, errors = 0\<rparr>,
              Map.empty, ([], 0)))))
          (to_name rust_wheat))"
    by (simp add: w rust_unresolved truthy_id_def)
  have e: "build_from_extractions recording_store Map.empty ([], 0)
             [wheat_only\<lparr>relationships := [wheat_wheat]\<rparr>]
       = (\<lparr>entities_created = 0, entities_found = 1, relationships_created = 1, errors = 0\<rparr>,
          [''wheat'' \<mapsto> Some ''n0''], ([(''n0'', ''n0'', ''GROWS_WITH'')], 1))"
    using wheat_pass [of "wheat_only\<lparr>relationships := [wheat_wheat]\<rparr>"]
      wheat_wheat_step [of "\<lparr>entities_created = 0, entities_found = 1,
        relationships_created = 0, errors = 0\<rparr>"]
    by (simp add: build_from_extractions_def relationship_pass_def wheat_only_def)
  show ?thesis
    using unresolved_relationship_skipped [OF refl h2 h3 h4] h3 rust_unresolved(1) e by simp
qed

lemma upper_char_not_lower: "upper_char c \<notin> set ascii_lowercase"
proof (cases "c \<in> set ascii_lowercase")
  case True
  then show ?thesis
    by (auto simp: upper_char_def ascii_lowercase_def ascii_uppercase_def)
next
  case False
  then have "map_of (zip ascii_lowercase ascii_uppercase) c = None"
    by (simp add: map_of_eq_None_iff ascii_lowercase_def ascii_uppercase_def)
  with False show ?thesis by (simp add: upper_char_def)
qed

lemma relationship_type_shape:
  "CHR '' '' \<notin> set (relationship_type rel)
   \<and> (\<forall>c \<in> set (relationship_type rel). c \<notin> set ascii_lowercase)"
proof -
  have "c \<notin> set ascii_lowercase" if "c \<in> set (replace_space (upper t))" for c t
  proof -
    from that have "c = CHR ''_'' \<or> (\<exists>d. c = upper_char d)"
      by (auto simp: replace_space_def upper_def split: if_splits)
    moreover have "CHR ''_'' \<notin> set ascii_lowercase"
      by (simp add: ascii_lowercase_def)
    ultimately show ?thesis
      using upper_char_not_lower by auto
  qed
  moreover have "CHR '' '' \<notin> set (relationship_type rel)"
    by (auto simp: relationship_type_def replace_space_def)
  ultimately show ?thesis by (simp add: relationship_type_def)
qed

lemma create_relationship_of_resolved:
  assumes "text_valued rel" "from_name rel \<noteq> []" "to_name rel \<noteq> []"
    and "cache (from_name rel) = Some (Some a)" "a \<noteq> []"
    and "cache (to_name rel) = Some (Some b)" "b \<noteq> []"
  shows "create_relationship_of db cache s rel =
           (if relationship_type rel = [] then (Inr False, s)
            else create_relationship db s a b (relationship_type rel)
                   (relationship_properties rel))"
  using assms(2-)
  by (simp add: create_relationship_of_text [OF assms(1)] cache_get_def truthy_id_def)

lemmas rel_eval = create_relationship_of_def get_text_def relationship_type_def
  wheat_rust_cache_def cache_get_def truthy_id_def recording_store_def
  relationship_properties_def

lemma rust_affects_wheat:
  "create_relationship_of recording_store wheat_rust_cache ([], 2) rust_wheat
   = (Inr True, ([(''n1'', ''n0'', ''AFFECTS_CROP'')], 2))"
  by (simp add: rel_eval rust_wheat_def str_eval)

lemma empty_type_dropped:
  "create_relationship_of recording_store wheat_rust_cache ([], 2)
     [''from'' \<mapsto> JString ''Rust'', ''to'' \<mapsto> JString ''Wheat'', ''type'' \<mapsto> JString []]
   = (Inr False, ([], 2))"
  by (simp add: rel_eval str_eval)

lemma short_type_kept:
  "create_relationship_of recording_store wheat_rust_cache ([], 2)
     [''from'' \<mapsto> JString ''Rust'', ''to'' \<mapsto> JString ''Wheat'', ''type'' \<mapsto> JString ''a'']
   = (Inr True, ([(''n1'', ''n0'', ''A'')], 2))"
  by (simp add: rel_eval str_eval)

text \<open>
  Claim C5, as stated: an empty or too short relationship type falls back to
  \<open>RELATED_TO\<close> and the relationship is not dropped. With both endpoints in the cache,
  the empty type makes \<open>_create_relationship\<close> return \<open>False\<close> with no call to the store,
  and the one-letter type \<open>a\<close> is stored as \<open>A\<close>.
\<close>

theorem relationship_type_fallback_counterexample:
  "create_relationship_of recording_store wheat_rust_cache ([], 2)
     [''from'' \<mapsto> JString ''Rust'', ''to'' \<mapsto> JString ''Wheat'', ''type'' \<mapsto> JString []]
   = (Inr False, ([], 2))
   \<and> create_relationship_of recording_store wheat_rust_cache ([], 2)
     [''from'' \<mapsto> JString ''Rust'', ''to'' \<mapsto> JString ''Wheat'', ''type'' \<mapsto> JString ''a'']
   = (Inr True, ([(''n1'', ''n0'', ''A'')], 2))
   \<and> ''A'' \<noteq> ''RELATED_TO''"
  by (simp add: empty_type_dropped short_type_kept)

text \<open>
  Claim C5, amended: for a relationship with string values whose endpoints resolve to
  ids in the cache, the type handed to the store is the input type stripped, upper-cased
  and with spaces replaced by underscores (so it holds no space and no lower-case
  letter); a record without a \<open>type\<close> key gets \<open>RELATED_TO\<close>; a type that is empty after
  stripping makes the builder skip the relationship, with no call to the store.
\<close>

theorem relationship_type_stored:
  assumes "text_valued rel" "from_name rel \<noteq> []" "to_name rel \<noteq> []"
    and "cache (from_name rel) = Some (Some a)" "a \<noteq> []"
    and "cache (to_name rel) = Some (Some b)" "b \<noteq> []"
  shows "create_relationship_of db cache s rel =
           (if relationship_type rel = [] then (Inr False, s)
            else create_relationship db s a b (relationship_type rel)
                   (relationship_properties rel))
       \<and> relationship_type rel
           = map (\<lambda>c. if c = CHR '' '' then CHR ''_'' else c)
               (map upper_char (strip (text_of (rel ''type'') ''RELATED_TO'')))
       \<and> CHR '' '' \<notin> set (relationship_type rel)
       \<and> (\<forall>c \<in> set (relationship_type rel). c \<notin> set ascii_lowercase)
       \<and> (rel ''type'' = None \<longrightarrow> relationship_type rel = ''RELATED_TO'')"
proof -
  have "rel ''type'' = None \<longrightarrow> relationship_type rel = ''RELATED_TO''"
    by (simp add: relationship_type_def str_eval)
  moreover have "relationship_type rel
           = map (\<lambda>c. if c = CHR '' '' then CHR ''_'' else c)
               (map upper_char (strip (text_of (rel ''type'') ''RELATED_TO'')))"
    by (simp add: relationship_type_def replace_space_def upper_def)
  ultimately show ?thesis
    using create_relationship_of_resolved [OF assms, of db s]
      relationship_type_shape [of rel]
    by simp
qed

theorem relationship_type_stored_witness:
  "text_valued rust_wheat
   \<and> wheat_rust_cache (from_name rust_wheat) = Some (Some ''n1'')
   \<and> wheat_rust_cache (to_name rust_wheat) = Some (Some ''n0'')
   \<and> relationship_type rust_wheat = ''AFFECTS_CROP''
   \<and> create_relationship_of recording_store wheat_rust_cache ([], 2) rust_wheat
       = (Inr True, ([(''n1'', ''n0'', ''AFFECTS_CROP'')], 2))"
proof -
  have h0: "text_valued rust_wheat"
    by (simp add: text_valued_def rust_wheat_def)
  have f: "from_name rust_wheat = ''rust''"
    by (simp add: from_name_def rust_wheat_def str_eval)
  have t: "to_name rust_wheat = ''wheat''"
    by (simp add: to_name_def rust_wheat_def str_eval)
  have ty: "relationship_type rust_wheat = ''AFFECTS_CROP''"
    by (simp add: relationship_type_def rust_wheat_def str_eval)
  have h1: "from_name rust_wheat \<noteq> []"
    by (simp add: f)
  have h2: "to_name rust_wheat \<noteq> []"
    by (simp add: t)
  have h3: "wheat_rust_cache (from_name rust_wheat) = Some (Some ''n1'')"
    by (simp add: f wheat_rust_cache_def)
  have h4: "''n1'' \<noteq> []"
    by simp
  have h5: "wheat_rust_cache (to_name rust_wheat) = Some (Some ''n0'')"
    by (simp add: t wheat_rust_cache_def)
  have h6: "''n0'' \<noteq> []"
    by simp
  show ?thesis
    using relationship_type_stored [OF h0 h1 h2 h3 h4 h5 h6, of recording_store "([], 2)"]
      h0 h3 h5 ty
    by (simp add: recording_store_def)
qed

section \<open>Properties of the hybrid retriever: traversal and expansion\<close>

lemma add_unseen_distinct:
  "distinct (map r_id found) \<Longrightarrow> set (map r_id found) \<subseteq> seen \<Longrightarrow>
     add_unseen k rs (found, seen) = (found', seen') \<Longrightarrow>
     distinct (map r_id found') \<and> set (map r_id found') \<subseteq> seen'"
proof (induction rs arbitrary: found seen)
  case Nil
  then show ?case by simp
next
  case (Cons r rs)
  show ?case
  proof (cases "r_id r \<in> seen")
    case True
    with Cons.prems Cons.IH [of found seen] show ?thesis
      by (auto split: if_splits)
  next
    case False
    with Cons.prems have d: "distinct (map r_id (found @ [r]))"
      and s: "set (map r_id (found @ [r])) \<subseteq> insert (r_id r) seen"
      by auto
    show ?thesis
    proof (cases "int (length (found @ [r])) \<ge> k")
      case True
      with False Cons.prems(3) have "found' = found @ [r]" "seen' = insert (r_id r) seen"
        by auto
      with d s show ?thesis by simp
    next
      case ge: False
      with False Cons.prems(3)
      have "add_unseen k rs (found @ [r], insert (r_id r) seen) = (found', seen')"
        by simp
      from Cons.IH [OF d s this] show ?thesis .
    qed
  qed
qed

lemma add_unseen_negative:
  "k < 0 \<Longrightarrow> add_unseen k rs ([], seen) = (found', seen') \<Longrightarrow> length found' \<le> 1"
  by (cases rs) (auto split: if_splits)

lemma traverse_distinct:
  "traverse self k h names (found, seen) s = (Inr out, s') \<Longrightarrow>
     distinct (map r_id found) \<Longrightarrow> set (map r_id found) \<subseteq> seen \<Longrightarrow>
     distinct (map r_id out)"
proof (induction names arbitrary: found seen s)
  case Nil
  then show ?case by simp
next
  case (Cons n names)
  show ?case
  proof (cases "resolve_entity (neo4j self) s n")
    case (Pair r s1)
    show ?thesis
    proof (cases r)
      case (Inl e)
      with Pair Cons.prems show ?thesis by simp
    next
      case (Inr eo)
      show ?thesis
      proof (cases eo)
        case None
        with Pair Inr Cons.prems Cons.IH [of found seen s1] show ?thesis by simp
      next
        case (Some entity)
        show ?thesis
        proof (cases "get_related_entities (neo4j self) s1 (node_id entity) ''both'' h")
          case rel: (Pair q s2)
          show ?thesis
          proof (cases q)
            case (Inl e)
            with Pair Inr Some rel Cons.prems show ?thesis by simp
          next
            case related: (Inr related)
            obtain found' seen' where a: "add_unseen k related (found, seen) = (found', seen')"
              by (cases "add_unseen k related (found, seen)") auto
            from add_unseen_distinct [OF Cons.prems(2,3) a]
            have d: "distinct (map r_id found')" and s: "set (map r_id found') \<subseteq> seen'"
              by auto
            show ?thesis
            proof (cases "int (length found') \<ge> k")
              case True
              with Pair Inr Some rel related a Cons.prems(1) d show ?thesis by simp
            next
              case False
              with Pair Inr Some rel related a Cons.prems(1)
              have "traverse self k h names (found', seen') s2 = (Inr out, s')" by simp
              from Cons.IH [OF this d s] show ?thesis .
            qed
          qed
        qed
      qed
    qed
  qed
qed

lemma traverse_negative:
  "traverse self k h names ([], seen) s = (Inr out, s') \<Longrightarrow> k < 0 \<Longrightarrow> length out \<le> 1"
proof (induction names arbitrary: s)
  case Nil
  then show ?case by simp
next
  case (Cons n names)
  show ?case
  proof (cases "resolve_entity (neo4j self) s n")
    case (Pair r s1)
    show ?thesis
    proof (cases r)
      case (Inl e)
      with Pair Cons.prems show ?thesis by simp
    next
      case (Inr eo)
      show ?thesis
      proof (cases eo)
        case None
        with Pair Inr Cons.prems Cons.IH [of s1] show ?thesis by simp
      next
        case (Some entity)
        show ?thesis
        proof (cases "get_related_entities (neo4j self) s1 (node_id entity) ''both'' h")
          case rel: (Pair q s2)
          show ?thesis
          proof (cases q)
            case (Inl e)
            with Pair Inr Some rel Cons.prems show ?thesis by simp
          next
            case related: (Inr related)
            obtain found' seen' where a: "add_unseen k related ([], seen) = (found', seen')"
              by (cases "add_unseen k related ([], seen)") auto
            from add_unseen_negative [OF Cons.prems(2) a] have l: "length found' \<le> 1" .
            from Cons.prems(2) have "int (length found') \<ge> k" by simp
            with Pair Inr Some rel related a Cons.prems(1) l show ?thesis by simp
          qed
        qed
      qed
    qed
  qed
qed

lemma slice_to_distinct: "distinct (map f xs) \<Longrightarrow> distinct (map f (slice_to xs k))"
  by (simp add: slice_to_def take_map [symmetric] distinct_take del: take_map)

lemma slice_to_length: "0 \<le> k \<Longrightarrow> int (length (slice_to xs k)) \<le> k"
  by (simp add: slice_to_def)

lemma slice_to_negative: "k < 0 \<Longrightarrow> length xs \<le> 1 \<Longrightarrow> slice_to xs k = []"
  by (simp add: slice_to_def)

lemma graph_traversal_bounded:
  assumes "graph_traversal self s names k h = (Inr out, s')"
  shows "int (length out) \<le> max 0 k \<and> distinct (map r_id out)"
proof -
  from assms obtain found where t: "traverse self k h names ([], {}) s = (Inr found, s')"
    and o: "out = slice_to found k"
    by (auto simp: graph_traversal_def split: prod.splits sum.splits)
  from traverse_distinct [OF t] have d: "distinct (map r_id found)" by simp
  have "int (length out) \<le> max 0 k"
  proof (cases "0 \<le> k")
    case True
    with o slice_to_length [of k found] show ?thesis by simp
  next
    case False
    with traverse_negative [OF t] o slice_to_negative [of k found] show ?thesis by simp
  qed
  with d o slice_to_distinct [of r_id found k] show ?thesis by simp
qed

lemma expand_bounded:
  assumes "expand_from_vector_results self s vr existing k h = (Inr out, s')"
    and "0 \<le> k" "distinct (map r_id existing)"
  shows "int (length out) \<le> k \<and> distinct (map r_id out)"
proof -
  from assms(1) obtain new s1 merged ids where
    a: "add_unseen k new (existing, set (map r_id existing)) = (merged, ids)"
    and o: "out = slice_to merged k"
    by (auto simp: expand_from_vector_results_def split: prod.splits sum.splits)
  from add_unseen_distinct [OF assms(3) _ a] have "distinct (map r_id merged)" by simp
  with o assms(2) slice_to_length [of k merged] slice_to_distinct [of r_id merged k]
  show ?thesis by simp
qed

lemma retrieve_bounded:
  assumes "retrieve self s query kv k h = (Inr (vr, gr), s')"
  shows "int (length gr) \<le> max 0 k \<and> distinct (map r_id gr)"
proof -
  obtain vr' s1 where v: "vector_search self s query kv = (vr', s1)"
    by (cases "vector_search self s query kv") auto
  from assms v obtain qe s2 where q: "extract_query_entities self s1 query = (Inr qe, s2)"
    by (auto simp: retrieve_def split: prod.splits sum.splits)
  from assms v q obtain g s3 where g: "graph_traversal self s2 qe k h = (Inr g, s3)"
    by (auto simp: retrieve_def split: prod.splits sum.splits)
  note b = graph_traversal_bounded [OF g]
  show ?thesis
  proof (cases "int (length g) < k div 2")
    case False
    with assms v q g b show ?thesis by (simp add: retrieve_def)
  next
    case True
    then have k: "0 \<le> k" by linarith
    from True assms v q g obtain s4 where
      e: "expand_from_vector_results self s3 vr' g k h = (Inr gr, s4)"
      by (auto simp: retrieve_def split: prod.splits sum.splits)
    from expand_bounded [OF e k] b k show ?thesis by simp
  qed
qed

lemma graph_hit_id [simp]: "r_id (graph_hit i) = i"
  by (simp add: graph_hit_def)

lemma farm_resolve_rust:
  "resolve_entity farm_store () ''Rust''
     = (Inr (Some \<lparr>node_id = ''e1'', node_props = [''name'' \<mapsto> ''Rust'']\<rparr>), ())"
  by (simp add: resolve_entity_def farm_store_def str_eval split_def isupper_def)

lemma farm_resolve_wheat:
  "resolve_entity farm_store () ''Wheat''
     = (Inr (Some \<lparr>node_id = ''e2'', node_props = [''name'' \<mapsto> ''Wheat'']\<rparr>), ())"
  by (simp add: resolve_entity_def farm_store_def str_eval split_def isupper_def)

lemma farm_related:
  "get_related_entities farm_store () ''e1'' d h = (Inr [graph_hit ''a'', graph_hit ''b''], ())"
  "get_related_entities farm_store () ''e2'' d h
     = (Inr [graph_hit ''b'', graph_hit ''c'', graph_hit ''d'', graph_hit ''e''], ())"
  by (simp_all add: farm_store_def)

lemma farm_neo4j: "neo4j farm = farm_store"
  by (simp add: farm_def)

lemma farm_traverse_rust:
  "5 \<le> k \<Longrightarrow> graph_traversal farm () [''Rust''] k 2 = (Inr [graph_hit ''a'', graph_hit ''b''], ())"
  by (simp add: graph_traversal_def farm_neo4j farm_resolve_rust farm_related slice_to_def)

lemma farm_traverse_wheat:
  "5 \<le> k \<Longrightarrow> graph_traversal farm () [''Wheat''] k 2
     = (Inr [graph_hit ''b'', graph_hit ''c'', graph_hit ''d'', graph_hit ''e''], ())"
  by (simp add: graph_traversal_def farm_neo4j farm_resolve_wheat farm_related slice_to_def)

lemma farm_traverse_both:
  "graph_traversal farm () [''Rust'', ''Wheat''] 3 2
     = (Inr [graph_hit ''a'', graph_hit ''b'', graph_hit ''c''], ())"
  by (simp add: graph_traversal_def farm_neo4j farm_resolve_rust farm_resolve_wheat
      farm_related slice_to_def)

lemma farm_candidates: "entity_candidates [farm_hit] = [''Wheat'']"
  by (simp add: entity_candidates_def capitalized_words_def farm_hit_def str_eval split_def isupper_def)

lemma farm_query_entities: "extract_query_entities farm () ''rust damage'' = (Inr [''Rust''], ())"
  by (simp add: extract_query_entities_def farm_neo4j farm_store_def str_eval split_def isupper_def)

lemma farm_vector: "vector_search farm () q k = ([farm_hit], ())"
  by (simp add: vector_search_def farm_def)

lemma farm_expand:
  "5 \<le> k \<Longrightarrow> expand_from_vector_results farm () [farm_hit] [graph_hit ''a'', graph_hit ''b''] k 2
     = (Inr [graph_hit ''a'', graph_hit ''b'', graph_hit ''c'', graph_hit ''d'', graph_hit ''e''], ())"
  by (simp add: expand_from_vector_results_def farm_candidates farm_traverse_wheat slice_to_def)

lemma farm_retrieve_5:
  "retrieve farm () ''rust damage'' 5 5 2
     = (Inr ([farm_hit], [graph_hit ''a'', graph_hit ''b'']), ())"
  by (simp add: retrieve_def farm_vector farm_query_entities farm_traverse_rust)

lemma farm_retrieve_6:
  "retrieve farm () ''rust damage'' 5 6 2
     = (Inr ([farm_hit],
          [graph_hit ''a'', graph_hit ''b'', graph_hit ''c'', graph_hit ''d'', graph_hit ''e'']), ())"
  by (simp add: retrieve_def farm_vector farm_query_entities farm_traverse_rust farm_expand)

lemma sparse_iff: "(int n < k div 2) = (2 * int n + 2 \<le> k)"
  by presburger

lemma farm_traverse_negative:
  "graph_traversal farm () [''Rust''] (- 1) 2 = (Inr [], ())"
  by (simp add: graph_traversal_def farm_neo4j farm_resolve_rust farm_related slice_to_def)

text \<open>
  Claim C1, as stated, bounds the length of the graph results by \<open>top_k_graph\<close> for every
  \<open>top_k_graph\<close>. With \<open>top_k_graph = -1\<close> the traversal returns the empty list, whose
  length 0 is not at most \<open>-1\<close>.
\<close>

theorem graph_results_bound_counterexample:
  "graph_traversal farm () [''Rust''] (- 1) 2 = (Inr [], ())
   \<and> \<not> int (length ([] :: result list)) \<le> - 1"
  by (simp add: farm_traverse_negative)

text \<open>
  Claim C1, amended: whatever the entity store answers, a list returned by
  \<open>_graph_traversal\<close>, and the graph list returned by \<open>retrieve\<close> (with or without the
  merge of \<open>_expand_from_vector_results\<close>), has at most \<open>top_k_graph\<close> elements when
  \<open>top_k_graph\<close> is not negative and is empty when it is negative, and holds no two
  elements with the same id. So does the list returned by \<open>_expand_from_vector_results\<close>
  for a non-negative \<open>top_k\<close> and existing results without duplicate ids.
\<close>

theorem graph_results_bounded_distinct:
  "(graph_traversal self s names top_k max_hops = (Inr out, s1)
      \<longrightarrow> int (length out) \<le> max 0 top_k \<and> distinct (map r_id out))
   \<and> (retrieve self s query top_k_vector top_k max_hops = (Inr (vr, gr), s2)
      \<longrightarrow> int (length gr) \<le> max 0 top_k \<and> distinct (map r_id gr))
   \<and> (0 \<le> top_k \<and> distinct (map r_id existing)
       \<and> expand_from_vector_results self s vs existing top_k max_hops = (Inr merged, s3)
      \<longrightarrow> int (length merged) \<le> top_k \<and> distinct (map r_id merged))"
  using graph_traversal_bounded [of self s names top_k max_hops out s1]
    retrieve_bounded [of self s query top_k_vector top_k max_hops vr gr s2]
    expand_bounded [of self s vs existing top_k max_hops merged s3]
  by blast

theorem graph_results_bounded_distinct_witness:
  "graph_traversal farm () [''Rust'', ''Wheat''] 3 2
     = (Inr [graph_hit ''a'', graph_hit ''b'', graph_hit ''c''], ())
   \<and> int (length [graph_hit ''a'', graph_hit ''b'', graph_hit ''c'']) \<le> max 0 3
   \<and> distinct (map r_id [graph_hit ''a'', graph_hit ''b'', graph_hit ''c''])
   \<and> retrieve farm () ''rust damage'' 5 6 2
     = (Inr ([farm_hit],
          [graph_hit ''a'', graph_hit ''b'', graph_hit ''c'', graph_hit ''d'', graph_hit ''e'']), ())
   \<and> distinct (map r_id
          [graph_hit ''a'', graph_hit ''b'', graph_hit ''c'', graph_hit ''d'', graph_hit ''e''])"
  using graph_results_bounded_distinct [of farm "()" "[''Rust'', ''Wheat'']" 3 2
      "[graph_hit ''a'', graph_hit ''b'', graph_hit ''c'']" "()" "''rust damage''" 5
      "[farm_hit]" "[graph_hit ''a'', graph_hit ''b'']" "()" "[]" "[]" "[]" "()"]
    graph_results_bounded_distinct [of farm "()" "[]" 6 2 "[]" "()" "''rust damage''" 5
      "[farm_hit]"
      "[graph_hit ''a'', graph_hit ''b'', graph_hit ''c'', graph_hit ''d'', graph_hit ''e'']"
      "()" "[]" "[]" "[]" "()"]
  by (simp add: farm_traverse_both farm_retrieve_6)

text \<open>
  Claim C3, as stated: the expansion runs whenever the number of graph results is
  strictly below \<open>top_k_graph / 2\<close>, also for an odd \<open>top_k_graph\<close>. With \<open>top_k_graph = 5\<close>
  and two graph results (\<open>2 < 5 / 2\<close>) \<open>retrieve\<close> returns the two results as they are,
  though the expansion would have extended them to five.
\<close>

theorem expansion_half_counterexample:
  "graph_traversal farm () [''Rust''] 5 2 = (Inr [graph_hit ''a'', graph_hit ''b''], ())
   \<and> real (length [graph_hit ''a'', graph_hit ''b'']) < 5 / 2
   \<and> retrieve farm () ''rust damage'' 5 5 2
       = (Inr ([farm_hit], [graph_hit ''a'', graph_hit ''b'']), ())
   \<and> expand_from_vector_results farm () [farm_hit] [graph_hit ''a'', graph_hit ''b''] 5 2
       = (Inr [graph_hit ''a'', graph_hit ''b'', graph_hit ''c'', graph_hit ''d'',
               graph_hit ''e''], ())
   \<and> [graph_hit ''a'', graph_hit ''b'']
       \<noteq> [graph_hit ''a'', graph_hit ''b'', graph_hit ''c'', graph_hit ''d'', graph_hit ''e'']"
  by (simp add: farm_traverse_rust farm_retrieve_5 farm_expand)

text \<open>
  Claim C3, amended: \<open>retrieve\<close> runs the expansion step if and only if the number of
  graph results of step 3 is strictly less than \<open>top_k_graph\<close> divided by 2 and rounded
  down, that is if and only if \<open>2 * count + 2 \<le> top_k_graph\<close>; for an even \<open>top_k_graph\<close>
  this is \<open>count < top_k_graph / 2\<close>. Otherwise the results of step 3 are returned
  unchanged.
\<close>

theorem retrieve_expansion_condition:
  assumes "vector_search self s query top_k_vector = (vr, s1)"
    and "extract_query_entities self s1 query = (Inr qe, s2)"
    and "graph_traversal self s2 qe top_k_graph max_hops = (Inr gr, s3)"
  shows "retrieve self s query top_k_vector top_k_graph max_hops =
           (if 2 * int (length gr) + 2 \<le> top_k_graph then
              (case expand_from_vector_results self s3 vr gr top_k_graph max_hops of
                 (Inl e, s4) \<Rightarrow> (Inl e, s4)
               | (Inr expanded, s4) \<Rightarrow> (Inr (vr, expanded), s4))
            else (Inr (vr, gr), s3))
       \<and> (2 * int (length gr) + 2 \<le> top_k_graph \<longleftrightarrow> int (length gr) < top_k_graph div 2)
       \<and> (even top_k_graph \<longrightarrow>
            (2 * int (length gr) + 2 \<le> top_k_graph
               \<longleftrightarrow> real (length gr) < real_of_int top_k_graph / 2))"
proof -
  have a: "(int (length gr) < top_k_graph div 2) = (2 * int (length gr) + 2 \<le> top_k_graph)"
    by (rule sparse_iff)
  have b: "2 * int (length gr) + 2 \<le> top_k_graph
             \<longleftrightarrow> real (length gr) < real_of_int top_k_graph / 2" if "even top_k_graph"
  proof -
    from that obtain m where m: "top_k_graph = 2 * m" by (auto elim: evenE)
    have "real (length gr) < real_of_int m \<longleftrightarrow> int (length gr) < m"
      by (metis of_int_less_iff of_int_of_nat_eq)
    moreover have "2 * int (length gr) + 2 \<le> 2 * m \<longleftrightarrow> int (length gr) < m"
      by arith
    ultimately show ?thesis using m by simp
  qed
  from assms a b show ?thesis
    by (simp add: retrieve_def)
qed

theorem retrieve_expansion_condition_witness:
  "vector_search farm () ''rust damage'' 5 = ([farm_hit], ())
   \<and> extract_query_entities farm () ''rust damage'' = (Inr [''Rust''], ())
   \<and> graph_traversal farm () [''Rust''] 6 2 = (Inr [graph_hit ''a'', graph_hit ''b''], ())
   \<and> 2 * int (length [graph_hit ''a'', graph_hit ''b'']) + 2 \<le> 6
   \<and> retrieve farm () ''rust damage'' 5 6 2
       = (Inr ([farm_hit],
            [graph_hit ''a'', graph_hit ''b'', graph_hit ''c'', graph_hit ''d'', graph_hit ''e'']),
          ())"
proof -
  have v: "vector_search farm () ''rust damage'' 5 = ([farm_hit], ())"
    by (rule farm_vector)
  have q: "extract_query_entities farm () ''rust damage'' = (Inr [''Rust''], ())"
    by (rule farm_query_entities)
  have g: "graph_traversal farm () [''Rust''] 6 2 = (Inr [graph_hit ''a'', graph_hit ''b''], ())"
    by (simp add: farm_traverse_rust)
  show ?thesis
    using retrieve_expansion_condition [OF v q g] v q g
    by (simp add: farm_expand)
qed

section \<open>Properties of reranking\<close>

lemma for_each_apply:
  assumes "\<And>r. f (f r) = f r"
  shows "for_each f addrs h a = (if a \<in> set addrs then f (h a) else h a)"
  unfolding for_each_def
proof (induction addrs arbitrary: h)
  case Nil
  then show ?case by simp
next
  case (Cons b bs)
  have "fold (\<lambda>a h. h(a := f (h a))) (b # bs) h a
      = fold (\<lambda>a h. h(a := f (h a))) bs (h(b := f (h b))) a"
    by simp
  also have "\<dots> = (if a \<in> set bs then f ((h(b := f (h b))) a) else (h(b := f (h b))) a)"
    by (rule Cons.IH)
  also have "\<dots> = (if a \<in> set (b # bs) then f (h a) else h a)"
    by (simp add: assms)
  finally show ?case .
qed

lemma normalize_vector_idem:
  "normalize_vector rnd m (normalize_vector rnd m r) = normalize_vector rnd m r"
  by (simp add: normalize_vector_def get_score_def)

lemma normalize_graph_idem:
  "normalize_graph rnd (normalize_graph rnd r) = normalize_graph rnd r"
  by (simp add: normalize_graph_def graph_score_def path_length_def)

lemma set_final_idem: "set_final rnd w (set_final rnd w r) = set_final rnd w r"
  by (simp add: set_final_def)

text \<open>The dictionary at an address after the four loops.\<close>

lemma rerank_heap_apply:
  "rerank_heap rnd h vs gs w a =
     (let m = max_of (map (\<lambda>a. get_score (h a)) vs);
          r1 = (if a \<in> set vs then normalize_vector rnd m (h a) else h a);
          r2 = (if a \<in> set gs then normalize_graph rnd r1 else r1);
          r3 = (if a \<in> set vs then set_final rnd w r2 else r2)
      in if a \<in> set gs then set_final rnd (rnd (1 - w)) r3 else r3)"
proof (cases "vs = []")
  case True
  then show ?thesis
    by (simp add: rerank_heap_def Let_def for_each_apply normalize_graph_idem set_final_idem)
next
  case False
  then show ?thesis
    by (simp add: rerank_heap_def Let_def for_each_apply normalize_graph_idem set_final_idem
        normalize_vector_idem)
qed

lemma input_keys_rerank: "input_keys (rerank_heap rnd h vs gs w a) = input_keys (h a)"
  by (simp add: rerank_heap_apply Let_def input_keys_def normalize_vector_def
      normalize_graph_def set_final_def)

lemma normalized_score_set:
  "a \<in> set vs \<union> set gs \<Longrightarrow>
     normalized_score
       (for_each (normalize_graph rnd) gs
          (for_each (normalize_vector rnd m) vs h) a) \<noteq> None"
  by (simp add: for_each_apply normalize_graph_idem normalize_vector_idem)
    (auto simp: normalize_graph_def normalize_vector_def)

lemmas rerank_eval = rerank_results_def rerank_heap_apply Let_def max_of_def get_final_def
  get_score_def set_final_def normalize_vector_def normalize_graph_def graph_score_def
  path_length_def scored_heap_def exact_def

lemma rerank_example:
  "snd (rerank_results exact (scored_heap [5 / 10, 9 / 10]) [0, 1] [2] (6 / 10)) = [1, 0, 2]"
  by (simp add: rerank_eval)



text \<open>
  Claim C10: the list returned by \<open>rerank_results\<close> is a permutation of the
  concatenation of its two argument lists, for every weight, all scores and every
  rounding: the same dictionaries (addresses), each as often as it was given, none
  dropped, duplicated or invented; and each dictionary keeps the keys it had, only
  \<open>normalized_score\<close>, \<open>source\<close> and \<open>final_score\<close> are written.
\<close>

theorem rerank_permutation:
  "mset (snd (rerank_results rnd h vs gs w)) = mset (vs @ gs)
   \<and> length (snd (rerank_results rnd h vs gs w)) = length vs + length gs
   \<and> set (snd (rerank_results rnd h vs gs w)) = set vs \<union> set gs
   \<and> (\<forall>a. input_keys (fst (rerank_results rnd h vs gs w) a) = input_keys (h a))"
proof -
  have m: "mset (snd (rerank_results rnd h vs gs w)) = mset (vs @ gs)"
    by (simp add: rerank_results_def Let_def)
  from m have "length (snd (rerank_results rnd h vs gs w)) = length (vs @ gs)"
    by (rule mset_eq_length)
  moreover from m have "set (snd (rerank_results rnd h vs gs w)) = set (vs @ gs)"
    by (rule mset_eq_setD)
  moreover have "input_keys (fst (rerank_results rnd h vs gs w) a) = input_keys (h a)" for a
    by (simp add: rerank_results_def Let_def input_keys_rerank)
  ultimately show ?thesis using m by simp
qed

theorem rerank_permutation_witness:
  "snd (rerank_results exact (scored_heap [5 / 10, 9 / 10]) [0, 1] [2] (6 / 10)) = [1, 0, 2]
   \<and> mset (snd (rerank_results exact (scored_heap [5 / 10, 9 / 10]) [0, 1] [2] (6 / 10)))
       = mset [0, 1, 2]
   \<and> length (snd (rerank_results exact (scored_heap [5 / 10, 9 / 10]) [0, 1] [2] (6 / 10))) = 3"
  using rerank_permutation [of exact "scored_heap [5 / 10, 9 / 10]" "[0, 1]" "[2]" "6 / 10"]
    rerank_example
  by simp























end
